theory Spec2Isabelle
  imports Complex_Main
begin

section \<open>Go's float64 and int, as far as the trading bot uses them\<close>

text \<open>
  The bot (\<^verbatim>\<open>demo/multistock/multistock.go\<close>) computes with \<^verbatim>\<open>float64\<close>.
  A finite float64 is modelled by the real number it denotes, and every arithmetic
  operation of the source rounds its exact result to the nearest binary64 number
  (53 significant bits, ties to even), one operation at a time, as Go does on amd64.
  The exponent range is not bounded: overflow to infinity and subnormal numbers are
  outside the model, and so are NaN and the infinities. Where the source divides by a
  divisor that can be zero, the model returns the fault \<open>NonFinite\<close> instead of a number.
\<close>

datatype fault =
  SliceBounds   \<comment> \<open>run-time panic: slice bounds out of range\<close>
  | NonFinite   \<comment> \<open>a float64 division by zero: the result is an infinity or NaN\<close>
  | IntRange    \<comment> \<open>a float64 outside int64 converted to int: implementation-dependent in Go\<close>

text \<open>Nearest integer, ties to the even one.\<close>

definition rte :: "real \<Rightarrow> int" where
  "rte q = (let f = \<lfloor>q\<rfloor>; d = q - of_int f in
            if d < 1/2 then f
            else if 1/2 < d then f + 1
            else if even f then f else f + 1)"

text \<open>The binary exponent \<open>e\<close> of \<open>x \<noteq> 0\<close>: \<open>2^e \<le> |x| < 2^(e+1)\<close>.\<close>

definition expo :: "real \<Rightarrow> int" where
  "expo x = \<lfloor>log 2 \<bar>x\<bar>\<rfloor>"

text \<open>Rounding to binary64: the significand \<open>x / 2^(e-52)\<close> is rounded to an integer.\<close>

definition f64 :: "real \<Rightarrow> real" where
  "f64 x = (if x = 0 then 0
            else of_int (rte (x * 2 powi (52 - expo x))) * 2 powi (expo x - 52))"

definition fadd :: "real \<Rightarrow> real \<Rightarrow> real" where
  "fadd x y = f64 (x + y)"

definition fsub :: "real \<Rightarrow> real \<Rightarrow> real" where
  "fsub x y = f64 (x - y)"

definition fmul :: "real \<Rightarrow> real \<Rightarrow> real" where
  "fmul x y = f64 (x * y)"

definition fdiv :: "real \<Rightarrow> real \<Rightarrow> fault + real" where
  "fdiv x y = (if y = 0 then Inl NonFinite else Inr (f64 (x / y)))"

text \<open>\<^verbatim>\<open>math.Sqrt\<close> is correctly rounded; the bot calls it on a variance, which is not negative.\<close>

definition fsqrt :: "real \<Rightarrow> real" where
  "fsqrt x = f64 (sqrt x)"

text \<open>The conversion \<^verbatim>\<open>float64(n)\<close> of an int.\<close>

definition float64 :: "int \<Rightarrow> real" where
  "float64 n = f64 (of_int n)"

text \<open>
  The conversion \<^verbatim>\<open>int(x)\<close> of a float64 discards the fraction (truncation towards zero).
  Go leaves the result to the implementation when the value does not fit int (64 bits).
\<close>

definition trunc :: "real \<Rightarrow> int" where
  "trunc x = (if 0 \<le> x then \<lfloor>x\<rfloor> else \<lceil>x\<rceil>)"

definition go_int :: "real \<Rightarrow> fault + int" where
  "go_int x = (let n = trunc x in
               if - (2 ^ 63) \<le> n \<and> n < 2 ^ 63 then Inr n else Inl IntRange)"

text \<open>Unary minus on int wraps at the least int64.\<close>

definition neg64 :: "int \<Rightarrow> int" where
  "neg64 n = (if n = - (2 ^ 63) then n else - n)"

section \<open>Data model\<close>

text \<open>
  \<^verbatim>\<open>trading212.Position\<close> (main.go), and \<^verbatim>\<open>PriceData\<close>, \<^verbatim>\<open>TradingIndicators\<close>,
  \<^verbatim>\<open>StockData\<close>, \<^verbatim>\<open>TradingBot\<close> (multistock.go). \<^verbatim>\<open>LastUpdate\<close> is a clock reading.
  The bot's \<^verbatim>\<open>client\<close> is the external collaborator and its \<^verbatim>\<open>mutex\<close> only serialises
  the phases of a cycle; the model is sequential and leaves both out.
  The periods are Go ints (64 bits). The model takes them as integers without the
  wrap-around at \<open>2^63\<close>, which is exact for periods below \<open>2^53\<close> in absolute value: there
  \<open>atrPeriod + 1\<close> does not wrap and the conversion to float64 is exact. As divisors they
  are converted by \<open>float64\<close>.
\<close>

record Position =
  Ticker :: string
  Quantity :: real
  Value :: real

record PriceData =
  Price :: real
  High :: real
  Low :: real
  Close :: real

record TradingIndicators =
  ATR :: real
  UpperBand :: real
  MiddleBand :: real
  LowerBand :: real
  StdDev :: real

record StockData =
  StockTicker :: string
  PriceHistory :: "PriceData list"
  Indicators :: TradingIndicators
  CurrentPrice :: real
  LastUpdate :: nat

record TradingBot =
  stocks :: "string \<rightharpoonup> StockData"
  riskPercent :: real
  atrPeriod :: int
  bollingerPeriod :: int

text \<open>
  \<^verbatim>\<open>int(math.Max(float64(bot.atrPeriod), float64(bot.bollingerPeriod)))\<close>. For periods
  below \<open>2^53\<close> in absolute value both conversions are exact and the expression is the
  larger period (\<open>maxHistory_conversion\<close> below). Beyond, float64 rounds the period, and
  from \<open>2^63 - 512\<close> on the conversion back to int leaves int64 (on amd64 the result is
  the least int64): \<open>maxHistory\<close> does not describe the source there, and what is proved
  of a function that calls it holds for periods below \<open>2^53\<close>, or at most the length
  of a slice.
\<close>

definition maxHistory :: "TradingBot \<Rightarrow> int" where
  "maxHistory b = max (atrPeriod b) (bollingerPeriod b)"

section \<open>Indicators\<close>

subsection \<open>calculateATR\<close>

text \<open>The first loop, \<^verbatim>\<open>for i := 1; i < len(priceHistory); i++\<close>, appends one true range per step.\<close>

function trueRanges_loop :: "PriceData list \<Rightarrow> nat \<Rightarrow> real list \<Rightarrow> real list" where
  "trueRanges_loop priceHistory i trueRanges =
     (if i < length priceHistory then
        (let current = priceHistory ! i;
             previous = priceHistory ! (i - 1);
             tr1 = fsub (High current) (Low current);
             tr2 = \<bar>fsub (High current) (Close previous)\<bar>;
             tr3 = \<bar>fsub (Low current) (Close previous)\<bar>;
             trueRange = max tr1 (max tr2 tr3)
         in trueRanges_loop priceHistory (i + 1) (trueRanges @ [trueRange]))
      else trueRanges)"
  by pat_completeness auto
termination
  by (relation "measure (\<lambda>(priceHistory, i, trueRanges). length priceHistory - i)") auto

declare trueRanges_loop.simps [simp del]

text \<open>The second loop, \<^verbatim>\<open>for i := start; i < len(trueRanges); i++ { sum += trueRanges[i] }\<close>.\<close>

function sum_loop :: "real list \<Rightarrow> nat \<Rightarrow> real \<Rightarrow> real" where
  "sum_loop xs i s = (if i < length xs then sum_loop xs (i + 1) (fadd s (xs ! i)) else s)"
  by pat_completeness auto
termination
  by (relation "measure (\<lambda>(xs, i, s). length xs - i)") auto

declare sum_loop.simps [simp del]

text \<open>
  \<open>start\<close> is not negative after the check \<^verbatim>\<open>len(trueRanges) < bot.atrPeriod\<close>, and it
  is beyond the slice when the period is negative: then the loop does not run.
\<close>

definition calculateATR :: "TradingBot \<Rightarrow> PriceData list \<Rightarrow> fault + real" where
  "calculateATR b priceHistory =
     (if int (length priceHistory) < atrPeriod b + 1 then Inr 0
      else
        (let trueRanges = trueRanges_loop priceHistory 1 [] in
         if int (length trueRanges) < atrPeriod b then Inr 0
         else
           (let start = nat (int (length trueRanges) - atrPeriod b);
                s = sum_loop trueRanges start 0
            in fdiv s (float64 (atrPeriod b)))))"

subsection \<open>calculateBollingerBands\<close>

text \<open>\<^verbatim>\<open>for i := start; i < len(priceHistory); i++ { sum += priceHistory[i].Close }\<close>\<close>

function close_loop :: "PriceData list \<Rightarrow> nat \<Rightarrow> real \<Rightarrow> real" where
  "close_loop priceHistory i s =
     (if i < length priceHistory
      then close_loop priceHistory (i + 1) (fadd s (Close (priceHistory ! i)))
      else s)"
  by pat_completeness auto
termination
  by (relation "measure (\<lambda>(priceHistory, i, s). length priceHistory - i)") auto

declare close_loop.simps [simp del]

text \<open>
  \<^verbatim>\<open>for i := start; i < len(priceHistory); i++ {
       diff := priceHistory[i].Close - sma; variance += diff * diff }\<close>
\<close>

function variance_loop :: "PriceData list \<Rightarrow> real \<Rightarrow> nat \<Rightarrow> real \<Rightarrow> real" where
  "variance_loop priceHistory sma i variance =
     (if i < length priceHistory then
        (let diff = fsub (Close (priceHistory ! i)) sma
         in variance_loop priceHistory sma (i + 1) (fadd variance (fmul diff diff)))
      else variance)"
  by pat_completeness auto
termination
  by (relation "measure (\<lambda>(priceHistory, sma, i, variance). length priceHistory - i)") auto

declare variance_loop.simps [simp del]

text \<open>The result is \<open>(upperBand, sma, lowerBand, stdDev)\<close>, in the order of the source.\<close>

definition calculateBollingerBands ::
    "TradingBot \<Rightarrow> PriceData list \<Rightarrow> fault + (real \<times> real \<times> real \<times> real)" where
  "calculateBollingerBands b priceHistory =
     (if int (length priceHistory) < bollingerPeriod b then Inr (0, 0, 0, 0)
      else
        (let start = nat (int (length priceHistory) - bollingerPeriod b);
             s = close_loop priceHistory start 0
         in case fdiv s (float64 (bollingerPeriod b)) of
              Inl e \<Rightarrow> Inl e
            | Inr sma \<Rightarrow>
                (case fdiv (variance_loop priceHistory sma start 0)
                           (float64 (bollingerPeriod b)) of
                   Inl e \<Rightarrow> Inl e
                 | Inr variance \<Rightarrow>
                     (let stdDev = fsqrt variance;
                          upperBand = fadd sma (fmul 2 stdDev);
                          lowerBand = fsub sma (fmul 2 stdDev)
                      in Inr (upperBand, sma, lowerBand, stdDev)))))"

subsection \<open>calculateIndicators\<close>

text \<open>\<^verbatim>\<open>TradingIndicators{}\<close>, the zero value.\<close>

definition zeroIndicators :: TradingIndicators where
  "zeroIndicators =
     \<lparr>ATR = 0, UpperBand = 0, MiddleBand = 0, LowerBand = 0, StdDev = 0\<rparr>"

definition calculateIndicators :: "TradingBot \<Rightarrow> PriceData list \<Rightarrow> fault + TradingIndicators" where
  "calculateIndicators b priceHistory =
     (if int (length priceHistory) < maxHistory b then Inr zeroIndicators
      else
        (case calculateATR b priceHistory of
           Inl e \<Rightarrow> Inl e
         | Inr atr \<Rightarrow>
             (case calculateBollingerBands b priceHistory of
                Inl e \<Rightarrow> Inl e
              | Inr (upperBand, middleBand, lowerBand, stdDev) \<Rightarrow>
                  Inr \<lparr>ATR = atr, UpperBand = upperBand, MiddleBand = middleBand,
                       LowerBand = lowerBand, StdDev = stdDev\<rparr>)))"

section \<open>Price refresh\<close>

text \<open>
  The loop \<^verbatim>\<open>for _, pos := range positions { if pos.Ticker == ticker { ... } }\<close>, which
  \<^verbatim>\<open>getCurrentPrice\<close> and \<^verbatim>\<open>executeTrading\<close> both run: the first position of the ticker.
\<close>

primrec find_position :: "Position list \<Rightarrow> string \<Rightarrow> Position option" where
  "find_position [] ticker = None"
| "find_position (pos # positions) ticker =
     (if Ticker pos = ticker then Some pos else find_position positions ticker)"

text \<open>
  \<^verbatim>\<open>getCurrentPrice\<close>. Its first argument is what \<^verbatim>\<open>bot.client.Portfolio()\<close> answered:
  an error (\<open>Inl\<close>) or the positions. The price is 0 on an error and for a ticker
  that is not held.
\<close>

definition getCurrentPrice :: "string + Position list \<Rightarrow> string \<Rightarrow> fault + real" where
  "getCurrentPrice response ticker =
     (case response of
        Inl err \<Rightarrow> Inr 0
      | Inr positions \<Rightarrow>
          (case find_position positions ticker of
             Some pos \<Rightarrow> fdiv (Value pos) (Quantity pos)
           | None \<Rightarrow> Inr 0))"

text \<open>
  The body of the loop of \<^verbatim>\<open>updateAllPrices\<close> after the check \<^verbatim>\<open>currentPrice == 0\<close>:
  the writes to one \<^verbatim>\<open>*StockData\<close>. The slice expression \<^verbatim>\<open>h[len(h)-maxHistory:]\<close> panics
  when its low bound exceeds \<^verbatim>\<open>len(h)\<close>, that is when \<^verbatim>\<open>maxHistory\<close> is negative.
\<close>

definition updateStock :: "TradingBot \<Rightarrow> real \<Rightarrow> nat \<Rightarrow> StockData \<Rightarrow> fault + StockData" where
  "updateStock b currentPrice now stockData =
     (let priceData = \<lparr>Price = currentPrice,
                        High = fmul currentPrice (f64 1.005),
                        Low = fmul currentPrice (f64 0.995),
                        Close = currentPrice\<rparr>;
          history = PriceHistory stockData @ [priceData]
      in if maxHistory b < int (length history) then
           (if maxHistory b < 0 then Inl SliceBounds
            else Inr (stockData\<lparr>CurrentPrice := currentPrice, LastUpdate := now,
                        PriceHistory := drop (nat (int (length history) - maxHistory b)) history\<rparr>))
         else Inr (stockData\<lparr>CurrentPrice := currentPrice, LastUpdate := now,
                     PriceHistory := history\<rparr>))"

text \<open>
  \<^verbatim>\<open>updateAllPrices\<close> ranges over the map \<^verbatim>\<open>bot.stocks\<close>, in an order Go does not fix:
  \<open>order\<close> is the order of one run, a list of the keys. \<open>portfolio ticker\<close> is the
  collaborator's answer and \<open>clock ticker\<close> the reading of \<^verbatim>\<open>time.Now()\<close> in the iteration
  of that ticker. A panic ends the program.
\<close>

fun updateAllPrices_loop ::
    "TradingBot \<Rightarrow> (string \<Rightarrow> string + Position list) \<Rightarrow> (string \<Rightarrow> nat) \<Rightarrow> string list \<Rightarrow>
     (string \<rightharpoonup> StockData) \<Rightarrow> fault + (string \<rightharpoonup> StockData)" where
  "updateAllPrices_loop b portfolio clock [] m = Inr m"
| "updateAllPrices_loop b portfolio clock (ticker # order) m =
     (case m ticker of
        None \<Rightarrow> updateAllPrices_loop b portfolio clock order m
      | Some stockData \<Rightarrow>
          (case getCurrentPrice (portfolio ticker) ticker of
             Inl e \<Rightarrow> Inl e
           | Inr currentPrice \<Rightarrow>
               if currentPrice = 0 then updateAllPrices_loop b portfolio clock order m
               else
                 (case updateStock b currentPrice (clock ticker) stockData of
                    Inl e \<Rightarrow> Inl e
                  | Inr stockData' \<Rightarrow>
                      updateAllPrices_loop b portfolio clock order (m(ticker \<mapsto> stockData')))))"

definition updateAllPrices ::
    "TradingBot \<Rightarrow> (string \<Rightarrow> string + Position list) \<Rightarrow> (string \<Rightarrow> nat) \<Rightarrow> string list \<Rightarrow>
     fault + TradingBot" where
  "updateAllPrices b portfolio clock order =
     (case updateAllPrices_loop b portfolio clock order (stocks b) of
        Inl e \<Rightarrow> Inl e
      | Inr m \<Rightarrow> Inr (b\<lparr>stocks := m\<rparr>))"

text \<open>
  The pushes of one ticker over several cycles: each element of the list is the price
  fetched in a cycle, not 0, with the clock reading of that cycle.
\<close>

fun pushes :: "TradingBot \<Rightarrow> (real \<times> nat) list \<Rightarrow> StockData \<Rightarrow> fault + StockData" where
  "pushes b [] stockData = Inr stockData"
| "pushes b ((currentPrice, now) # cycles) stockData =
     (case updateStock b currentPrice now stockData of
        Inl e \<Rightarrow> Inl e
      | Inr stockData' \<Rightarrow> pushes b cycles stockData')"

text \<open>The sample that \<^verbatim>\<open>updateAllPrices\<close> builds from a fetched price.\<close>

definition sample :: "real \<Rightarrow> PriceData" where
  "sample currentPrice =
     \<lparr>Price = currentPrice, High = fmul currentPrice (f64 1.005),
      Low = fmul currentPrice (f64 0.995), Close = currentPrice\<rparr>"

section \<open>Trading decisions\<close>

text \<open>
  What one call of \<^verbatim>\<open>executeTrading\<close> does for a ticker. \<open>Buy t n\<close> and \<open>Sell t n r\<close> are
  the call \<^verbatim>\<open>bot.client.EquityOrderPlaceMarket(t, n)\<close>; \<open>r\<close> is \<^verbatim>\<open>sellReason\<close>, which the
  log line of an accepted sell order reports. The other three submit no order:
  \<open>NoData\<close> is the early return, \<open>NoEntry\<close> and \<open>Holding\<close> log an observation. No branch
  assigns to a field of the bot or of a \<^verbatim>\<open>StockData\<close>.
\<close>

datatype outcome =
  NoData
  | Buy string int
  | NoEntry
  | Sell string int string
  | Holding

text \<open>
  \<^verbatim>\<open>evaluateEntry\<close>. A zero \<^verbatim>\<open>MiddleBand\<close> makes \<^verbatim>\<open>bollingerWidth\<close> an infinity or NaN,
  and none of them is both above 0.02 and below 0.15.
\<close>

definition evaluateEntry :: "string \<Rightarrow> real \<Rightarrow> TradingIndicators \<Rightarrow> int \<Rightarrow> outcome" where
  "evaluateEntry ticker currentPrice indicators positionSize =
     (let touchesLowerBand = currentPrice \<le> LowerBand indicators;
          lowVolatility = ATR indicators < fmul currentPrice (f64 0.025);
          belowMiddleBand = currentPrice < MiddleBand indicators;
          normalVolatility =
            (case fdiv (fsub (UpperBand indicators) (LowerBand indicators))
                       (MiddleBand indicators) of
               Inl e \<Rightarrow> False
             | Inr bollingerWidth \<Rightarrow> f64 0.02 < bollingerWidth \<and> bollingerWidth < f64 0.15)
      in if touchesLowerBand \<and> lowVolatility \<and> belowMiddleBand \<and> normalVolatility
         then Buy ticker positionSize
         else NoEntry)"

text \<open>
  \<^verbatim>\<open>evaluateExit\<close>. The five \<^verbatim>\<open>if\<close> statements run one after the other and each
  assigns \<^verbatim>\<open>shouldSell\<close> and \<^verbatim>\<open>sellReason\<close>; the pair \<open>(shouldSell, sellReason)\<close> after
  each of them is \<open>s1\<close> to \<open>s5\<close>. The position's quantity is converted to int only when
  the order is placed.
\<close>

definition evaluateExit :: "string \<Rightarrow> real \<Rightarrow> TradingIndicators \<Rightarrow> Position \<Rightarrow> fault + outcome" where
  "evaluateExit ticker currentPrice indicators position =
     (case fdiv (Value position) (Quantity position) of
        Inl e \<Rightarrow> Inl e
      | Inr entryPrice \<Rightarrow>
          (case fdiv (fsub currentPrice entryPrice) entryPrice of
             Inl e \<Rightarrow> Inl e
           | Inr ratio \<Rightarrow>
               (let stopLoss = fsub entryPrice (fmul (ATR indicators) (f64 1.5));
                    s0 = (False, '''');
                    s1 = (if UpperBand indicators \<le> currentPrice
                          then (True, ''Take Profit (Upper Band)'') else s0);
                    s2 = (if currentPrice \<le> stopLoss
                          then (True, ''Stop Loss (ATR)'') else s1);
                    profitPercent = fmul ratio 100;
                    s3 = (if 5 \<le> profitPercent \<and> currentPrice < MiddleBand indicators
                          then (True, ''Profit Protection'') else s2);
                    s4 = (if fmul entryPrice (f64 0.04) < ATR indicators \<and> 0 < profitPercent
                          then (True, ''High Volatility Exit'') else s3);
                    s5 = (if profitPercent < 0 \<and> ATR indicators < fmul entryPrice (f64 0.01)
                          then (True, ''Low Volatility Cut'') else s4);
                    shouldSell = fst s5;
                    sellReason = snd s5
                in if shouldSell then
                     (case go_int (Quantity position) of
                        Inl e \<Rightarrow> Inl e
                      | Inr n \<Rightarrow> Inr (Sell ticker (neg64 n) sellReason))
                   else Inr Holding)))"

text \<open>
  \<^verbatim>\<open>executeTrading\<close>. \<^verbatim>\<open>currentPrice\<close> is not 0 where \<^verbatim>\<open>positionSize\<close> is computed, and
  only \<^verbatim>\<open>evaluateEntry\<close> uses \<^verbatim>\<open>positionSize\<close>.
\<close>

definition executeTrading ::
    "TradingBot \<Rightarrow> string \<Rightarrow> StockData \<Rightarrow> Position list \<Rightarrow> real \<Rightarrow> fault + outcome" where
  "executeTrading b ticker stockData positions portfolioValue =
     (let indicators = Indicators stockData;
          currentPrice = CurrentPrice stockData;
          hasData = (maxHistory b \<le> int (length (PriceHistory stockData)))
      in if \<not> hasData \<or> currentPrice = 0 then Inr NoData
         else
           (let positionSize =
                  (case go_int (f64 (f64 (fmul portfolioValue (riskPercent b) / 100) / currentPrice)) of
                     Inl e \<Rightarrow> Inl e
                   | Inr n \<Rightarrow> Inr (if n < 1 then 1 else n))
            in case find_position positions ticker of
                 None \<Rightarrow>
                   (case positionSize of
                      Inl e \<Rightarrow> Inl e
                    | Inr n \<Rightarrow> Inr (evaluateEntry ticker currentPrice indicators n))
               | Some existingPosition \<Rightarrow>
                   evaluateExit ticker currentPrice indicators existingPosition))"

section \<open>The indicators as the specification words them\<close>

text \<open>
  The true range of a sample against its predecessor, the true ranges of a series
  (one for each sample but the first), the arithmetic mean and the population
  standard deviation of a list, and the last \<open>n\<close> elements of a list. The sums run
  from the oldest element to the newest, in float64 as everything else.
\<close>

definition trueRange :: "PriceData \<Rightarrow> PriceData \<Rightarrow> real" where
  "trueRange previous current =
     max (fsub (High current) (Low current))
         (max \<bar>fsub (High current) (Close previous)\<bar> \<bar>fsub (Low current) (Close previous)\<bar>)"

definition trueRanges :: "PriceData list \<Rightarrow> real list" where
  "trueRanges series = map (\<lambda>t. trueRange (series ! (t - 1)) (series ! t)) [1..<length series]"

definition lastn :: "nat \<Rightarrow> 'a list \<Rightarrow> 'a list" where
  "lastn n xs = drop (length xs - n) xs"

definition mean :: "real list \<Rightarrow> fault + real" where
  "mean xs = fdiv (foldl fadd 0 xs) (float64 (int (length xs)))"

definition squared_deviations :: "real \<Rightarrow> real list \<Rightarrow> real list" where
  "squared_deviations m xs = map (\<lambda>x. fmul (fsub x m) (fsub x m)) xs"

definition population_stddev :: "real list \<Rightarrow> fault + real" where
  "population_stddev xs =
     (case mean xs of
        Inl e \<Rightarrow> Inl e
      | Inr m \<Rightarrow>
          (case mean (squared_deviations m xs) of
             Inl e \<Rightarrow> Inl e
           | Inr variance \<Rightarrow> Inr (fsqrt variance)))"

section \<open>Facts about the rounding\<close>

lemma expo_bounds:
  assumes "x \<noteq> 0"
  shows "2 powi expo x \<le> \<bar>x\<bar>" and "\<bar>x\<bar> < 2 powi (expo x + 1)"
proof -
  have pos: "0 < \<bar>x\<bar>" using assms by simp
  have p: "(2::real) powi k = 2 powr (of_int k)" for k
    by (simp add: powr_real_of_int')
  have "of_int (expo x) \<le> log 2 \<bar>x\<bar>" by (simp add: expo_def)
  then have "2 powr (of_int (expo x)) \<le> \<bar>x\<bar>" using pos by (simp add: le_log_iff)
  then show "2 powi expo x \<le> \<bar>x\<bar>" by (simp only: p)
  have "log 2 \<bar>x\<bar> < of_int (expo x + 1)" unfolding expo_def by linarith
  then have "\<bar>x\<bar> < 2 powr (of_int (expo x + 1))" using pos by (simp add: log_less_iff)
  then show "\<bar>x\<bar> < 2 powi (expo x + 1)" by (simp only: p)
qed

lemma expo_eqI:
  assumes "2 powi k \<le> \<bar>x\<bar>" and "\<bar>x\<bar> < 2 powi (k + 1)"
  shows "expo x = k"
proof -
  have pos: "0 < \<bar>x\<bar>"
  proof -
    have "(0::real) < 2 powi k" by simp
    then show ?thesis using assms(1) by linarith
  qed
  have p: "(2::real) powi j = 2 powr (of_int j)" for j
    by (simp add: powr_real_of_int')
  have a: "2 powr (of_int k) \<le> \<bar>x\<bar>" using assms(1) by (simp only: p)
  have b: "\<bar>x\<bar> < 2 powr (of_int (k + 1))" using assms(2) by (simp only: p)
  have "of_int k \<le> log 2 \<bar>x\<bar>" using a pos by (simp add: le_log_iff)
  moreover have "log 2 \<bar>x\<bar> < of_int (k + 1)" using b pos by (simp add: log_less_iff)
  ultimately show ?thesis unfolding expo_def by (simp add: floor_eq_iff)
qed

text \<open>How a concrete number is rounded, once its exponent \<open>k\<close> is known.\<close>

lemma f64_eval:
  assumes "2 powi k \<le> \<bar>x\<bar>" and "\<bar>x\<bar> < 2 powi (k + 1)"
  shows "f64 x = of_int (rte (x * 2 powi (52 - k))) * 2 powi (k - 52)"
proof -
  have "(0::real) < 2 powi k" by simp
  then have "0 < \<bar>x\<bar>" using assms(1) by linarith
  then have "x \<noteq> 0" by simp
  then show ?thesis using expo_eqI[OF assms] by (simp add: f64_def)
qed

lemma f64_zero: "f64 0 = 0"
  by (simp add: f64_def)

lemma rte_of_int: "rte (of_int m) = m"
  by (simp add: rte_def)

lemma rte_ge:
  assumes "of_int m \<le> q"
  shows "m \<le> rte q"
proof -
  have "m \<le> \<lfloor>q\<rfloor>" using assms by (simp add: le_floor_iff)
  then show ?thesis by (simp add: rte_def Let_def)
qed

lemma rte_le:
  assumes "q \<le> of_int m"
  shows "rte q \<le> m"
proof (cases "q - of_int \<lfloor>q\<rfloor> < 1/2")
  case True
  have "\<lfloor>q\<rfloor> \<le> m" using assms by (simp add: floor_le_iff)
  then show ?thesis using True by (simp add: rte_def Let_def)
next
  case False
  then have "of_int \<lfloor>q\<rfloor> < q" by linarith
  then have "of_int \<lfloor>q\<rfloor> < (of_int m :: real)" using assms by linarith
  then have "\<lfloor>q\<rfloor> < m" by simp
  then show ?thesis by (simp add: rte_def Let_def)
qed

text \<open>Rounding keeps a number away from zero: the exponent is not bounded below.\<close>

lemma f64_eq_0_iff: "f64 x = 0 \<longleftrightarrow> x = 0"
proof
  assume z: "f64 x = 0"
  show "x = 0"
  proof (rule ccontr)
    assume nz: "x \<noteq> 0"
    define q where "q = x * 2 powi (52 - expo x)"
    have "\<bar>q\<bar> = \<bar>x\<bar> * 2 powi (52 - expo x)" by (simp add: q_def abs_mult)
    moreover have "2 powi expo x * 2 powi (52 - expo x) = (2::real) powi 52"
      by (simp flip: power_int_add)
    ultimately have "2 powi 52 \<le> \<bar>q\<bar>"
      using expo_bounds(1)[OF nz] by (metis mult_right_mono zero_le_numeral zero_le_power_int)
    then have big: "of_int (2 ^ 52) \<le> \<bar>q\<bar>" by simp
    have "rte q \<noteq> 0"
    proof (cases "0 \<le> q")
      case True
      then have "2 ^ 52 \<le> rte q" using big rte_ge[of "2 ^ 52" q] by simp
      then show ?thesis by simp
    next
      case False
      then have "q \<le> of_int (- (2 ^ 52))" using big by simp
      then have "rte q \<le> - (2 ^ 52)" by (rule rte_le)
      then show ?thesis by simp
    qed
    then have "f64 x \<noteq> 0" using nz by (simp add: f64_def q_def)
    then show False using z by simp
  qed
qed (simp add: f64_zero)

text \<open>Every integer below \<open>2^53\<close> in absolute value is a float64.\<close>

lemma f64_of_int:
  assumes "\<bar>n\<bar> < 2 ^ 53"
  shows "f64 (of_int n) = of_int n"
proof (cases "n = 0")
  case True then show ?thesis by (simp add: f64_zero)
next
  case False
  define x :: real where "x = of_int n"
  define e where "e = expo x"
  have nz: "x \<noteq> 0" using False by (simp add: x_def)
  have lo: "2 powi e \<le> \<bar>x\<bar>" using expo_bounds(1)[OF nz] by (simp add: e_def)
  have "\<bar>x\<bar> < 2 powi 53" using assms unfolding x_def
    by (metis of_int_abs of_int_less_numeral_power_cancel_iff power_int_numeral)
  then have "(2::real) powi e < 2 powi 53" using lo by linarith
  then have e53: "e < 53"
    using power_int_increasing[of 53 e "2::real"] by (cases "e < 53") auto
  define k where "k = nat (52 - e)"
  have k: "52 - e = int k" using e53 by (simp add: k_def)
  have "x * 2 powi (52 - e) = of_int (n * 2 ^ k)"
    by (simp add: k x_def)
  then have "rte (x * 2 powi (52 - e)) = n * 2 ^ k" by (simp only: rte_of_int)
  moreover have "e - 52 = - int k" using k by simp
  ultimately have "f64 x = of_int (n * 2 ^ k) * 2 powi (- int k)"
    using nz by (simp add: f64_def e_def)
  also have "\<dots> = x" by (simp add: x_def power_int_minus)
  finally show ?thesis by (simp add: x_def)
qed

lemma rte_minus: "rte (- q) = - rte q"
proof (cases "q = of_int \<lfloor>q\<rfloor>")
  case True
  then obtain m where "q = of_int m" ..
  then show ?thesis using rte_of_int[of m] rte_of_int[of "- m"] by simp
next
  case False
  then have "of_int \<lfloor>q\<rfloor> < q" using of_int_floor_le[of q] by linarith
  then have c: "\<lceil>q\<rceil> = \<lfloor>q\<rfloor> + 1" by (simp add: ceiling_eq_iff)
  have f: "\<lfloor>- q\<rfloor> = - \<lfloor>q\<rfloor> - 1" using c by (simp add: ceiling_def)
  show ?thesis unfolding rte_def Let_def f by (auto simp: algebra_simps)
qed

lemma f64_minus: "f64 (- x) = - f64 x"
  by (simp add: f64_def expo_def rte_minus)

text \<open>Rounding a float64 again changes nothing.\<close>

lemma powi_combine: "a + b = c \<Longrightarrow> (2::real) powi a * 2 powi b = 2 powi c"
  by (auto simp: power_int_add)

lemma rte_abs_bounds:
  assumes "of_int m \<le> \<bar>q\<bar>" and "\<bar>q\<bar> \<le> of_int n"
  shows "m \<le> \<bar>rte q\<bar>" and "\<bar>rte q\<bar> \<le> n"
proof -
  have "m \<le> \<bar>rte q\<bar> \<and> \<bar>rte q\<bar> \<le> n"
  proof (cases "0 \<le> q")
    case True
    with assms have "of_int m \<le> q" "q \<le> of_int n" by simp_all
    then have "m \<le> rte q" "rte q \<le> n" by (simp_all add: rte_ge rte_le)
    moreover have "0 \<le> rte q" using rte_ge[of 0 q] True by simp
    ultimately show ?thesis by simp
  next
    case False
    with assms have "of_int m \<le> - q" "- q \<le> of_int n" by simp_all
    then have "m \<le> rte (- q)" "rte (- q) \<le> n" by (simp_all add: rte_ge rte_le)
    moreover have "0 \<le> rte (- q)" using rte_ge[of 0 "- q"] False by simp
    ultimately show ?thesis by (simp add: rte_minus)
  qed
  then show "m \<le> \<bar>rte q\<bar>" and "\<bar>rte q\<bar> \<le> n" by simp_all
qed

lemma f64_idem: "f64 (f64 x) = f64 x"
proof (cases "x = 0")
  case True then show ?thesis by (simp add: f64_zero)
next
  case False
  define e where "e = expo x"
  define q where "q = x * 2 powi (52 - e)"
  define m where "m = rte q"
  define y :: real where "y = of_int m * 2 powi (e - 52)"
  define p52 :: real where "p52 = 2 powi 52"
  define p53 :: real where "p53 = 2 powi 53"
  have p52: "p52 = of_int (2 ^ 52)" and p53: "p53 = of_int (2 ^ 53)"
    by (simp_all add: p52_def p53_def)
  have y: "f64 x = y" using False by (simp add: f64_def y_def m_def q_def e_def)
  have absq: "\<bar>q\<bar> = \<bar>x\<bar> * 2 powi (52 - e)" by (simp add: q_def abs_mult)
  have "2 powi e * 2 powi (52 - e) \<le> \<bar>q\<bar>"
    unfolding absq using expo_bounds(1)[OF False] by (simp add: e_def)
  then have "p52 \<le> \<bar>q\<bar>" unfolding p52_def by (simp only: powi_combine[of e "52 - e" 52])
  then have lo: "of_int (2 ^ 52) \<le> \<bar>q\<bar>" by (simp only: p52)
  have "\<bar>q\<bar> < 2 powi (e + 1) * 2 powi (52 - e)"
    unfolding absq using expo_bounds(2)[OF False] by (simp add: e_def)
  then have "\<bar>q\<bar> < p53" unfolding p53_def by (simp only: powi_combine[of "e + 1" "52 - e" 53])
  then have hi: "\<bar>q\<bar> \<le> of_int (2 ^ 53)" by (simp only: p53)
  have m: "2 ^ 52 \<le> \<bar>m\<bar>" "\<bar>m\<bar> \<le> 2 ^ 53"
    using rte_abs_bounds[OF lo hi] by (simp_all add: m_def)
  have absy: "\<bar>y\<bar> = of_int \<bar>m\<bar> * 2 powi (e - 52)" by (simp add: y_def abs_mult)
  show ?thesis
  proof (cases "\<bar>m\<bar> = 2 ^ 53")
    case True
    have "\<bar>y\<bar> = p53 * 2 powi (e - 52)" unfolding absy True p53 ..
    then have ay: "\<bar>y\<bar> = 2 powi (e + 1)"
      unfolding p53_def by (simp only: powi_combine[of 53 "e - 52" "e + 1"])
    have "2 powi (e + 1) \<le> \<bar>y\<bar>" and "\<bar>y\<bar> < 2 powi (e + 1 + 1)"
      unfolding ay by (simp_all add: power_int_strict_increasing)
    then have ex: "expo y = e + 1" by (rule expo_eqI)
    have "even \<bar>m\<bar>" unfolding True by simp
    then have "even m" by simp
    then obtain h where h: "m = 2 * h" by (elim evenE)
    have "y * 2 powi (52 - (e + 1)) = of_int h * (2 powi 1 * 2 powi (e - 52) * 2 powi (52 - (e + 1)))"
      by (simp add: y_def h)
    also have "\<dots> = of_int h * (2 powi (e - 51) * 2 powi (52 - (e + 1)))"
      by (simp only: powi_combine[of 1 "e - 52" "e - 51"])
    also have "\<dots> = of_int h * 2 powi 0"
      by (simp only: powi_combine[of "e - 51" "52 - (e + 1)" 0])
    finally have sig: "y * 2 powi (52 - (e + 1)) = of_int h" by simp
    have ynz: "y \<noteq> 0"
    proof
      assume "y = 0"
      then have "(2::real) powi (e + 1) = 0" using ay by simp
      then show False by simp
    qed
    have "f64 y = of_int h * 2 powi (e + 1 - 52)"
      using ynz sig by (simp add: f64_def ex rte_of_int)
    also have "\<dots> = of_int h * (2 powi 1 * 2 powi (e - 52))"
      by (simp only: powi_combine[of 1 "e - 52" "e + 1 - 52"])
    also have "\<dots> = y" by (simp add: y_def h)
    finally show ?thesis by (simp add: y)
  next
    case False
    then have lt: "\<bar>m\<bar> < 2 ^ 53" using m(2) by simp
    have "p52 \<le> of_int \<bar>m\<bar>" unfolding p52 using m(1) by (simp only: of_int_le_iff)
    then have "p52 * 2 powi (e - 52) \<le> \<bar>y\<bar>"
      unfolding absy by (simp add: mult_right_mono)
    then have a: "2 powi e \<le> \<bar>y\<bar>"
      unfolding p52_def by (simp only: powi_combine[of 52 "e - 52" e])
    have "of_int \<bar>m\<bar> < p53" unfolding p53 using lt by (simp only: of_int_less_iff)
    then have "\<bar>y\<bar> < p53 * 2 powi (e - 52)"
      unfolding absy by (simp add: mult_strict_right_mono)
    then have b: "\<bar>y\<bar> < 2 powi (e + 1)"
      unfolding p53_def by (simp only: powi_combine[of 53 "e - 52" "e + 1"])
    have ex: "expo y = e" using a b by (rule expo_eqI)
    have "y * 2 powi (52 - e) = of_int m * (2 powi (e - 52) * 2 powi (52 - e))"
      by (simp add: y_def)
    also have "\<dots> = of_int m * 2 powi 0"
      by (simp only: powi_combine[of "e - 52" "52 - e" 0])
    finally have sig: "y * 2 powi (52 - e) = of_int m" by simp
    have ynz: "y \<noteq> 0"
    proof
      assume "y = 0"
      then have "(2::real) powi e \<le> 0" using a by simp
      moreover have "(0::real) < 2 powi e" by simp
      ultimately show False by linarith
    qed
    have "f64 y = of_int m * 2 powi (e - 52)"
      using ynz by (simp add: f64_def ex sig rte_of_int)
    then show ?thesis by (simp add: y y_def)
  qed
qed

lemma f64_numeral: "numeral n < (2::int) ^ 53 \<Longrightarrow> f64 (numeral n) = numeral n"
  using f64_of_int[of "numeral n"] by simp

lemma f64_one: "f64 1 = 1"
  using f64_of_int[of 1] by simp

lemma float64_eq_0_iff: "float64 n = 0 \<longleftrightarrow> n = 0"
  by (simp add: float64_def f64_eq_0_iff)

text \<open>
  The conversion of the periods through float64 and back, as the source writes it, is
  \<open>maxHistory\<close> for periods below \<open>2^53\<close> in absolute value.
\<close>

lemma trunc_of_int: "trunc (of_int n) = n"
  by (simp add: trunc_def)

lemma maxHistory_conversion:
  assumes "\<bar>atrPeriod b\<bar> < 2 ^ 53" and "\<bar>bollingerPeriod b\<bar> < 2 ^ 53"
  shows "go_int (max (float64 (atrPeriod b)) (float64 (bollingerPeriod b))) = Inr (maxHistory b)"
proof -
  have "max (float64 (atrPeriod b)) (float64 (bollingerPeriod b)) = of_int (maxHistory b)"
    using assms by (simp add: float64_def f64_of_int maxHistory_def)
  moreover have "- (2 ^ 63) \<le> maxHistory b" and "maxHistory b < 2 ^ 63"
    using assms by (simp_all add: maxHistory_def abs_less_iff max_def)
  ultimately show ?thesis by (simp add: go_int_def trunc_of_int)
qed

section \<open>Insufficient history\<close>

text \<open>
  Claim C3. For every price history shorter than the larger of the two periods (the
  periods below \<open>2^53\<close> in absolute value), \<open>calculateIndicators\<close> returns normally, and
  what it returns is the zero value of \<open>TradingIndicators\<close>: ATR, the three bands and the
  standard deviation are all 0.
\<close>

theorem calculateIndicators_short:
  assumes "int (length priceHistory) < max (atrPeriod b) (bollingerPeriod b)"
    and "\<bar>atrPeriod b\<bar> < 2 ^ 53" and "\<bar>bollingerPeriod b\<bar> < 2 ^ 53"
  shows "calculateIndicators b priceHistory =
           Inr \<lparr>ATR = 0, UpperBand = 0, MiddleBand = 0, LowerBand = 0, StdDev = 0\<rparr>"
  using assms(1) by (simp add: calculateIndicators_def maxHistory_def zeroIndicators_def)

theorem calculateIndicators_short_witness:
  "int (length [\<lparr>Price = 99, High = 100, Low = 98, Close = 99\<rparr>]) < max 14 20 \<and>
   \<bar>14::int\<bar> < 2 ^ 53 \<and> \<bar>20::int\<bar> < 2 ^ 53 \<and>
   calculateIndicators \<lparr>stocks = Map.empty, riskPercent = 1, atrPeriod = 14, bollingerPeriod = 20\<rparr>
       [\<lparr>Price = 99, High = 100, Low = 98, Close = 99\<rparr>] =
     Inr \<lparr>ATR = 0, UpperBand = 0, MiddleBand = 0, LowerBand = 0, StdDev = 0\<rparr>"
  using calculateIndicators_short
    [of "[\<lparr>Price = 99, High = 100, Low = 98, Close = 99\<rparr>]"
        "\<lparr>stocks = Map.empty, riskPercent = 1, atrPeriod = 14, bollingerPeriod = 20\<rparr>"]
  by simp

section \<open>Average true range\<close>

lemma trueRanges_loop_eq:
  "trueRanges_loop ph i acc = acc @ map (\<lambda>t. trueRange (ph ! (t - 1)) (ph ! t)) [i..<length ph]"
proof (induction ph i acc rule: trueRanges_loop.induct)
  case (1 ph i acc)
  show ?case
  proof (cases "i < length ph")
    case True
    have upt: "[i..<length ph] = i # [i + 1..<length ph]"
      using True by (simp add: upt_conv_Cons)
    have "trueRanges_loop ph i acc =
            trueRanges_loop ph (i + 1) (acc @ [trueRange (ph ! (i - 1)) (ph ! i)])"
      using True by (subst trueRanges_loop.simps) (simp only: Let_def trueRange_def if_True)
    also have "\<dots> = (acc @ [trueRange (ph ! (i - 1)) (ph ! i)]) @
            map (\<lambda>t. trueRange (ph ! (t - 1)) (ph ! t)) [i + 1..<length ph]"
      using 1[OF True refl refl refl refl refl refl] by (simp only: trueRange_def)
    finally show ?thesis by (simp only: upt list.map append_assoc append_Cons append_Nil)
  next
    case False
    then show ?thesis by (subst trueRanges_loop.simps) simp
  qed
qed

lemma sum_loop_eq: "sum_loop xs i s = foldl fadd s (drop i xs)"
proof (induction xs i s rule: sum_loop.induct)
  case (1 xs i s)
  show ?case
  proof (cases "i < length xs")
    case True
    then have "drop i xs = xs ! i # drop (i + 1) xs" by (simp add: Cons_nth_drop_Suc)
    then show ?thesis using True 1 by (subst sum_loop.simps) simp
  next
    case False
    then show ?thesis by (subst sum_loop.simps) simp
  qed
qed

text \<open>
  Claim C5. For a positive \<open>atrPeriod\<close> and every series of at least \<open>atrPeriod + 1\<close>
  samples, \<open>calculateATR\<close> returns a number, and that number is the arithmetic mean
  (the sum divided by the count: a simple moving average, no smoothing) of the last
  \<open>atrPeriod\<close> true ranges of the series, where the true range of a sample is the
  largest of high - low, |high - previous close| and |low - previous close|.
\<close>

theorem calculateATR_mean:
  assumes "0 < atrPeriod b" and "atrPeriod b + 1 \<le> int (length priceHistory)"
  shows "\<exists>atr. calculateATR b priceHistory = Inr atr \<and>
               mean (lastn (nat (atrPeriod b)) (trueRanges priceHistory)) = Inr atr"
proof -
  define trs where "trs = trueRanges priceHistory"
  define n where "n = nat (atrPeriod b)"
  have loop: "trueRanges_loop priceHistory (Suc 0) [] = trs"
    using trueRanges_loop_eq[of priceHistory 1 "[]"] by (simp add: trs_def trueRanges_def)
  have len: "length trs = length priceHistory - 1"
    by (simp add: trs_def trueRanges_def)
  have n: "int n = atrPeriod b" "n \<le> length trs" using assms by (simp_all add: n_def len)
  have start: "nat (int (length trs) - atrPeriod b) = length trs - n" using n by linarith
  have nz: "float64 (atrPeriod b) \<noteq> 0" using assms(1) by (simp add: float64_eq_0_iff)
  have "calculateATR b priceHistory =
          fdiv (foldl fadd 0 (drop (length trs - n) trs)) (float64 (atrPeriod b))"
    using assms n by (simp add: calculateATR_def loop Let_def start sum_loop_eq)
  moreover have "mean (lastn n trs) =
          fdiv (foldl fadd 0 (drop (length trs - n) trs)) (float64 (atrPeriod b))"
    using n by (simp add: mean_def lastn_def)
  ultimately show ?thesis using nz by (simp add: fdiv_def n_def trs_def)
qed

text \<open>
  The four samples of the specification with \<open>atrPeriod = 3\<close>: the true ranges of samples
  2 to 4 are 5, 4 and 4, and the ATR is their mean, 13/3 rounded to float64.
\<close>

lemma f64_13_3: "f64 (13 / 3) = 4878899596318037 / 2 ^ 50"
  by (subst f64_eval[where k = 2]) (simp_all add: rte_def Let_def power_int_minus)

theorem calculateATR_mean_witness:
  "calculateATR \<lparr>stocks = Map.empty, riskPercent = 0.4, atrPeriod = 3, bollingerPeriod = 3\<rparr>
     [\<lparr>Price = 0, High = 102, Low = 98, Close = 100\<rparr>,
      \<lparr>Price = 0, High = 104, Low = 99, Close = 103\<rparr>,
      \<lparr>Price = 0, High = 105, Low = 101, Close = 102\<rparr>,
      \<lparr>Price = 0, High = 103, Low = 99, Close = 101\<rparr>] = mean [5, 4, 4] \<and>
   mean [5, 4, 4] = Inr (4878899596318037 / 2 ^ 50)"
proof -
  define b where "b = \<lparr>stocks = Map.empty :: string \<rightharpoonup> StockData, riskPercent = 0.4,
    atrPeriod = 3, bollingerPeriod = 3\<rparr>"
  define ph where "ph = [\<lparr>Price = 0, High = 102, Low = 98, Close = 100\<rparr>,
      \<lparr>Price = 0, High = 104, Low = 99, Close = 103\<rparr>,
      \<lparr>Price = 0, High = 105, Low = 101, Close = 102\<rparr>,
      \<lparr>Price = 0, High = 103, Low = 99, Close = 101\<rparr>]"
  have upt: "[1..<4] = [1, 2, 3::nat]" by (simp add: upt_rec)
  have trs: "trueRanges ph = [5, 4, 4]"
    by (simp add: trueRanges_def ph_def upt trueRange_def fsub_def f64_numeral f64_minus f64_one)
  have last: "lastn (nat (atrPeriod b)) (trueRanges ph) = [5, 4, 4]"
    by (simp add: trs lastn_def b_def)
  have m: "mean [5, 4, 4] = Inr (4878899596318037 / 2 ^ 50)"
    using f64_13_3 by (simp add: mean_def fdiv_def fadd_def float64_def f64_numeral)
  have "0 < atrPeriod b" and "atrPeriod b + 1 \<le> int (length ph)"
    by (simp_all add: b_def ph_def)
  from calculateATR_mean[OF this] last m
  have "calculateATR b ph = mean [5, 4, 4]" by auto
  then show ?thesis using m by (simp add: b_def ph_def)
qed

section \<open>Bollinger bands\<close>

lemma close_loop_eq: "close_loop ph i s = foldl fadd s (map Close (drop i ph))"
proof (induction ph i s rule: close_loop.induct)
  case (1 ph i s)
  show ?case
  proof (cases "i < length ph")
    case True
    then have "drop i ph = ph ! i # drop (i + 1) ph" by (simp add: Cons_nth_drop_Suc)
    then show ?thesis using True 1 by (subst close_loop.simps) simp
  next
    case False
    then show ?thesis by (subst close_loop.simps) simp
  qed
qed

lemma variance_loop_eq:
  "variance_loop ph sma i v = foldl fadd v (squared_deviations sma (map Close (drop i ph)))"
proof (induction ph sma i v rule: variance_loop.induct)
  case (1 ph sma i v)
  show ?case
  proof (cases "i < length ph")
    case True
    then have d: "drop i ph = ph ! i # drop (i + 1) ph" by (simp add: Cons_nth_drop_Suc)
    have "variance_loop ph sma i v =
            variance_loop ph sma (i + 1)
              (fadd v (fmul (fsub (Close (ph ! i)) sma) (fsub (Close (ph ! i)) sma)))"
      using True by (subst variance_loop.simps) (simp only: Let_def if_True)
    also have "\<dots> = foldl fadd (fadd v (fmul (fsub (Close (ph ! i)) sma) (fsub (Close (ph ! i)) sma)))
            (squared_deviations sma (map Close (drop (i + 1) ph)))"
      using 1[OF True refl] .
    finally show ?thesis by (simp add: d squared_deviations_def)
  next
    case False
    then show ?thesis by (subst variance_loop.simps) (simp add: squared_deviations_def)
  qed
qed

lemma foldl_fadd_zeros: "\<forall>x\<in>set xs. x = 0 \<Longrightarrow> foldl fadd 0 xs = 0"
  by (induction xs) (simp_all add: fadd_def f64_zero)

text \<open>
  What \<open>calculateBollingerBands\<close> returns for a positive \<open>bollingerPeriod\<close> and a series of
  at least that many samples: the middle band is the arithmetic mean of the last
  \<open>bollingerPeriod\<close> closes, \<open>stdDev\<close> is their population standard deviation (the sum of
  the squared deviations from the middle band is divided by \<open>bollingerPeriod\<close>, not by
  \<open>bollingerPeriod - 1\<close>), and the upper and lower bands are the middle band plus and
  minus twice \<open>stdDev\<close>. Where every close of the window equals the middle band as
  computed, \<open>stdDev\<close> is 0 and the three bands coincide.
\<close>

lemma calculateBollingerBands_formulas:
  assumes "0 < bollingerPeriod b" and "bollingerPeriod b \<le> int (length priceHistory)"
  shows "\<exists>m sd. mean (map Close (lastn (nat (bollingerPeriod b)) priceHistory)) = Inr m \<and>
           population_stddev (map Close (lastn (nat (bollingerPeriod b)) priceHistory)) = Inr sd \<and>
           calculateBollingerBands b priceHistory =
             Inr (fadd m (fmul 2 sd), m, fsub m (fmul 2 sd), sd) \<and>
           ((\<forall>p\<in>set (lastn (nat (bollingerPeriod b)) priceHistory). Close p = m) \<longrightarrow>
              sd = 0 \<and> calculateBollingerBands b priceHistory = Inr (m, m, m, 0))"
proof -
  define n where "n = nat (bollingerPeriod b)"
  define closes where "closes = map Close (lastn n priceHistory)"
  have n: "int n = bollingerPeriod b" "n \<le> length priceHistory" "0 < n"
    using assms by (simp_all add: n_def)
  have start: "nat (int (length priceHistory) - bollingerPeriod b) = length priceHistory - n"
    using n by linarith
  have len: "length closes = n" using n by (simp add: closes_def lastn_def)
  have nz: "float64 (bollingerPeriod b) \<noteq> 0" using assms(1) by (simp add: float64_eq_0_iff)
  define m where "m = f64 (foldl fadd 0 closes / float64 (bollingerPeriod b))"
  define var where
    "var = f64 (foldl fadd 0 (squared_deviations m closes) / float64 (bollingerPeriod b))"
  define sd where "sd = fsqrt var"
  have mean: "mean closes = Inr m"
    using nz by (simp add: mean_def fdiv_def len n m_def)
  have mean2: "mean (squared_deviations m closes) = Inr var"
    using nz by (simp add: mean_def fdiv_def len n var_def squared_deviations_def)
  have stddev: "population_stddev closes = Inr sd"
    by (simp add: population_stddev_def mean mean2 sd_def)
  have bb: "calculateBollingerBands b priceHistory =
          Inr (fadd m (fmul 2 sd), m, fsub m (fmul 2 sd), sd)"
    using assms nz
    by (simp add: calculateBollingerBands_def Let_def start close_loop_eq variance_loop_eq
        fdiv_def lastn_def closes_def m_def var_def sd_def n_def)
  have flat: "sd = 0 \<and> calculateBollingerBands b priceHistory = Inr (m, m, m, 0)"
    if same: "\<forall>p\<in>set (lastn n priceHistory). Close p = m"
  proof -
    have "\<forall>x\<in>set (squared_deviations m closes). x = 0"
      using same by (auto simp: squared_deviations_def closes_def fsub_def fmul_def f64_zero)
    then have "foldl fadd 0 (squared_deviations m closes) = 0" by (rule foldl_fadd_zeros)
    then have "var = 0" by (simp add: var_def f64_zero)
    then have sd0: "sd = 0" by (simp add: sd_def fsqrt_def f64_zero)
    have "f64 m = m" by (simp add: m_def f64_idem)
    then show ?thesis using bb sd0 by (simp add: fadd_def fsub_def fmul_def f64_zero)
  qed
  show ?thesis
    using mean stddev bb flat unfolding closes_def n_def by blast
qed


text \<open>
  Three closes of 0.1 (the float64 nearest to 1/10) with \<open>bollingerPeriod = 3\<close>: the
  roundings of the computation, one for each operation of the source.
\<close>

lemma f64_tenth: "f64 (1 / 10) = 7205759403792794 / 2 ^ 56"
  by (subst f64_eval[where k = "- 4"]) (simp_all add: rte_def Let_def power_int_minus)

lemma c_1: "f64 (7205759403792794 / 2 ^ 56) = 7205759403792794 / 2 ^ 56"
  by (subst f64_eval[where k = "- 4"]) (simp_all add: rte_def Let_def power_int_minus)

lemma c_2: "f64 (7205759403792794 / 2 ^ 56 + 7205759403792794 / 2 ^ 56) = 7205759403792794 / 2 ^ 55"
  by (subst f64_eval[where k = "- 3"]) (simp_all add: rte_def Let_def power_int_minus)

lemma c_3: "f64 (7205759403792794 / 2 ^ 55 + 7205759403792794 / 2 ^ 56) = 5404319552844596 / 2 ^ 54"
  by (subst f64_eval[where k = "- 2"]) (simp_all add: rte_def Let_def power_int_minus)

lemma c_sma: "f64 (5404319552844596 / 2 ^ 54 / 3) = 7205759403792795 / 2 ^ 56"
  by (subst f64_eval[where k = "- 4"]) (simp_all add: rte_def Let_def power_int_minus)

lemma c_diff: "f64 (7205759403792794 / 2 ^ 56 - 7205759403792795 / 2 ^ 56) = - (1 / 2 ^ 56)"
  by (subst f64_eval[where k = "- 56"]) (simp_all add: rte_def Let_def power_int_minus)

lemma c_sq: "f64 (- (1 / 2 ^ 56) * - (1 / 2 ^ 56)) = 1 / 2 ^ 112"
  by (subst f64_eval[where k = "- 112"]) (simp_all add: rte_def Let_def power_int_minus)

lemma c_v1: "f64 (1 / 2 ^ 112) = 1 / 2 ^ 112"
  by (subst f64_eval[where k = "- 112"]) (simp_all add: rte_def Let_def power_int_minus)

lemma c_v2: "f64 (1 / 2 ^ 112 + 1 / 2 ^ 112) = 1 / 2 ^ 111"
  by (subst f64_eval[where k = "- 111"]) (simp_all add: rte_def Let_def power_int_minus)

lemma c_v3: "f64 (1 / 2 ^ 111 + 1 / 2 ^ 112) = 3 / 2 ^ 112"
  by (subst f64_eval[where k = "- 111"]) (simp_all add: rte_def Let_def power_int_minus)

lemma c_var: "f64 (3 / 2 ^ 112 / 3) = 1 / 2 ^ 112"
  by (subst f64_eval[where k = "- 112"]) (simp_all add: rte_def Let_def power_int_minus)

lemma c_sqrt: "sqrt (1 / 2 ^ 112) = 1 / 2 ^ 56"
  by (rule real_sqrt_unique) (simp_all add: power_divide)

lemma c_sd: "f64 (1 / 2 ^ 56) = 1 / 2 ^ 56"
  by (subst f64_eval[where k = "- 56"]) (simp_all add: rte_def Let_def power_int_minus)

lemma c_2sd: "f64 (2 * (1 / 2 ^ 56)) = 1 / 2 ^ 55"
  by (subst f64_eval[where k = "- 55"]) (simp_all add: rte_def Let_def power_int_minus)

lemma c_up: "f64 (7205759403792795 / 2 ^ 56 + 1 / 2 ^ 55) = 7205759403792797 / 2 ^ 56"
  by (subst f64_eval[where k = "- 4"]) (simp_all add: rte_def Let_def power_int_minus)

lemma c_lo: "f64 (7205759403792795 / 2 ^ 56 - 1 / 2 ^ 55) = 7205759403792793 / 2 ^ 56"
  by (subst f64_eval[where k = "- 4"]) (simp_all add: rte_def Let_def power_int_minus)


text \<open>
  Claim C7. For every series whose closes are all identical across the Bollinger window,
  the standard deviation is exactly 0 and the upper, middle and lower bands are exactly
  equal to the common close; the repository's \<^verbatim>\<open>TestBollingerBandsEdgeCases\<close> expects the
  same (\<^verbatim>\<open>Expected stdDev 0 for identical prices\<close>). \<open>calculateBollingerBands\<close> does not
  deliver it. With \<open>bollingerPeriod = 3\<close> and three closes of 0.1 the running sum
  \<open>0.1 + 0.1 + 0.1\<close> is rounded up, the mean is the next float64 above 0.1, every
  deviation is \<open>- 2^-56\<close>, and the function returns \<open>stdDev = 2^-56\<close> and three different
  bands, none of them the common close.
\<close>

theorem calculateBollingerBands_identical_closes:
  "calculateBollingerBands
     \<lparr>stocks = Map.empty, riskPercent = 0.4, atrPeriod = 3, bollingerPeriod = 3\<rparr>
     [\<lparr>Price = 0, High = 0, Low = 0, Close = f64 (1 / 10)\<rparr>,
      \<lparr>Price = 0, High = 0, Low = 0, Close = f64 (1 / 10)\<rparr>,
      \<lparr>Price = 0, High = 0, Low = 0, Close = f64 (1 / 10)\<rparr>] =
     Inr (7205759403792797 / 2 ^ 56, 7205759403792795 / 2 ^ 56, 7205759403792793 / 2 ^ 56,
          1 / 2 ^ 56) \<and>
   f64 (1 / 10) = 7205759403792794 / 2 ^ 56 \<and>
   calculateBollingerBands
     \<lparr>stocks = Map.empty, riskPercent = 0.4, atrPeriod = 3, bollingerPeriod = 3\<rparr>
     [\<lparr>Price = 0, High = 0, Low = 0, Close = f64 (1 / 10)\<rparr>,
      \<lparr>Price = 0, High = 0, Low = 0, Close = f64 (1 / 10)\<rparr>,
      \<lparr>Price = 0, High = 0, Low = 0, Close = f64 (1 / 10)\<rparr>] \<noteq>
     Inr (f64 (1 / 10), f64 (1 / 10), f64 (1 / 10), 0)"
proof -
  define c :: real where "c = 7205759403792794 / 2 ^ 56"
  define ph where "ph = [\<lparr>Price = 0, High = 0, Low = 0, Close = c\<rparr>,
      \<lparr>Price = 0, High = 0, Low = 0, Close = c\<rparr>,
      \<lparr>Price = 0, High = 0, Low = 0, Close = c\<rparr>]"
  define b where "b = \<lparr>stocks = Map.empty :: string \<rightharpoonup> StockData, riskPercent = 0.4,
    atrPeriod = 3, bollingerPeriod = 3\<rparr>"
  have total: "close_loop ph 0 0 = 5404319552844596 / 2 ^ 54"
    unfolding close_loop_eq ph_def c_def
    by (simp only: drop_0 list.map PriceData.simps foldl.simps fadd_def add_0 c_1 c_2 c_3)
  have three: "float64 3 = 3" by (simp add: float64_def f64_numeral)
  have sma: "fdiv (5404319552844596 / 2 ^ 54) (float64 3) = Inr (7205759403792795 / 2 ^ 56)"
    unfolding three fdiv_def using c_sma by simp
  have var: "variance_loop ph (7205759403792795 / 2 ^ 56) 0 0 = 3 / 2 ^ 112"
    unfolding variance_loop_eq ph_def c_def squared_deviations_def
    by (simp only: drop_0 list.map PriceData.simps foldl.simps fadd_def fsub_def fmul_def add_0
         c_diff c_sq c_v1 c_v2 c_v3)
  have var': "fdiv (3 / 2 ^ 112) (float64 3) = Inr (1 / 2 ^ 112)"
    unfolding three fdiv_def using c_var by simp
  have sd: "fsqrt (1 / 2 ^ 112) = 1 / 2 ^ 56"
    unfolding fsqrt_def c_sqrt by (rule c_sd)
  have twosd: "fmul 2 (1 / 2 ^ 56) = 1 / 2 ^ 55"
    unfolding fmul_def by (rule c_2sd)
  have up: "fadd (7205759403792795 / 2 ^ 56) (1 / 2 ^ 55) = 7205759403792797 / 2 ^ 56"
    unfolding fadd_def by (rule c_up)
  have lo: "fsub (7205759403792795 / 2 ^ 56) (1 / 2 ^ 55) = 7205759403792793 / 2 ^ 56"
    unfolding fsub_def by (rule c_lo)
  have start: "nat (int (length ph) - 3) = 0" by (simp add: ph_def)
  have len: "\<not> int (length ph) < 3" by (simp add: ph_def)
  have per: "bollingerPeriod b = 3" by (simp add: b_def)
  have "calculateBollingerBands b ph =
     Inr (7205759403792797 / 2 ^ 56, 7205759403792795 / 2 ^ 56, 7205759403792793 / 2 ^ 56,
          1 / 2 ^ 56)"
    unfolding calculateBollingerBands_def Let_def per
    using len
    by (simp only: if_False start total sma var var' sd twosd up lo sum.case)
  then show ?thesis unfolding b_def ph_def c_def f64_tenth by simp
qed


text \<open>
  Three closes of 100 with \<open>bollingerPeriod = 3\<close>, the case that the repository's
  \<^verbatim>\<open>TestBollingerBandsEdgeCases\<close> checks: the sums 100, 200 and 300 are exact.
\<close>

lemma calculateBollingerBands_hundred:
  "calculateBollingerBands
     \<lparr>stocks = Map.empty, riskPercent = 0.4, atrPeriod = 3, bollingerPeriod = 3\<rparr>
     [\<lparr>Price = 0, High = 0, Low = 0, Close = 100\<rparr>,
      \<lparr>Price = 0, High = 0, Low = 0, Close = 100\<rparr>,
      \<lparr>Price = 0, High = 0, Low = 0, Close = 100\<rparr>] = Inr (100, 100, 100, 0) \<and>
   mean [100, 100, 100] = Inr 100 \<and> population_stddev [100, 100, 100] = Inr 0"
proof -
  define ph where "ph = [\<lparr>Price = 0, High = 0, Low = 0, Close = 100\<rparr>,
      \<lparr>Price = 0, High = 0, Low = 0, Close = 100\<rparr>,
      \<lparr>Price = 0, High = 0, Low = 0, Close = 100\<rparr>]"
  define b where "b = \<lparr>stocks = Map.empty :: string \<rightharpoonup> StockData, riskPercent = 0.4,
    atrPeriod = 3, bollingerPeriod = 3\<rparr>"
  have last: "lastn (nat (bollingerPeriod b)) ph = ph" by (simp add: lastn_def b_def ph_def)
  have closes: "map Close ph = [100, 100, 100]" by (simp add: ph_def)
  have m100: "mean [100, 100, 100] = Inr 100"
    by (simp add: mean_def fdiv_def fadd_def float64_def f64_numeral)
  have "0 < bollingerPeriod b" and "bollingerPeriod b \<le> int (length ph)"
    by (simp_all add: b_def ph_def)
  from calculateBollingerBands_formulas[OF this]
  obtain m sd where m: "mean [100, 100, 100] = Inr m"
    and sd: "population_stddev [100, 100, 100] = Inr sd"
    and flat: "(\<forall>p\<in>set ph. Close p = m) \<longrightarrow>
                 sd = 0 \<and> calculateBollingerBands b ph = Inr (m, m, m, 0)"
    unfolding last closes by blast
  have "m = 100" using m m100 by simp
  moreover have "\<forall>p\<in>set ph. Close p = 100" by (simp add: ph_def)
  ultimately show ?thesis using flat sd m100 by (simp add: b_def ph_def)
qed

section \<open>A series of exactly \<open>atrPeriod\<close> samples\<close>

text \<open>
  Claim C8, as amended. Whenever the check of \<open>calculateIndicators\<close> passes (the series
  has at least \<open>max atrPeriod bollingerPeriod\<close> samples) and the series has fewer than
  \<open>atrPeriod + 1\<close> samples, \<open>calculateATR\<close> returns 0 and so the ATR of the computed
  indicators is 0; this happens only when \<open>bollingerPeriod\<close> is at most \<open>atrPeriod\<close> and
  the series has exactly \<open>atrPeriod\<close> samples.
\<close>

theorem calculateATR_short:
  assumes "max (atrPeriod b) (bollingerPeriod b) \<le> int (length priceHistory)"
    and "int (length priceHistory) < atrPeriod b + 1"
  shows "calculateATR b priceHistory = Inr 0 \<and>
         (\<forall>indicators. calculateIndicators b priceHistory = Inr indicators \<longrightarrow> ATR indicators = 0) \<and>
         bollingerPeriod b \<le> atrPeriod b \<and> int (length priceHistory) = atrPeriod b"
proof -
  have atr: "calculateATR b priceHistory = Inr 0" using assms(2) by (simp add: calculateATR_def)
  have "ATR indicators = 0" if "calculateIndicators b priceHistory = Inr indicators" for indicators
    using that assms(1) atr
    by (auto simp: calculateIndicators_def maxHistory_def split: sum.splits if_splits)
  then show ?thesis using atr assms by auto
qed

theorem calculateATR_short_witness:
  "max 3 2 \<le> int (length [\<lparr>Price = 0, High = 0, Low = 0, Close = 100\<rparr>,
      \<lparr>Price = 0, High = 0, Low = 0, Close = 100\<rparr>,
      \<lparr>Price = 0, High = 0, Low = 0, Close = 100::real\<rparr>]) \<and>
   calculateATR \<lparr>stocks = Map.empty, riskPercent = 1, atrPeriod = 3, bollingerPeriod = 2\<rparr>
     [\<lparr>Price = 0, High = 0, Low = 0, Close = 100\<rparr>,
      \<lparr>Price = 0, High = 0, Low = 0, Close = 100\<rparr>,
      \<lparr>Price = 0, High = 0, Low = 0, Close = 100\<rparr>] = Inr 0"
  using calculateATR_short
    [of "\<lparr>stocks = Map.empty, riskPercent = 1, atrPeriod = 3, bollingerPeriod = 2\<rparr>"
        "[\<lparr>Price = 0, High = 0, Low = 0, Close = 100\<rparr>,
          \<lparr>Price = 0, High = 0, Low = 0, Close = 100\<rparr>,
          \<lparr>Price = 0, High = 0, Low = 0, Close = 100\<rparr>]"]
  by simp

text \<open>
  With both periods 3 and three samples the check passes and the series has fewer
  than \<open>atrPeriod + 1\<close> samples, although \<open>bollingerPeriod\<close> is not above \<open>atrPeriod\<close>.
\<close>

theorem calculateATR_short_counterexample:
  "maxHistory \<lparr>stocks = Map.empty, riskPercent = 1, atrPeriod = 3, bollingerPeriod = 3\<rparr>
     \<le> int (length [\<lparr>Price = 0, High = 102, Low = 98, Close = 100\<rparr>,
                     \<lparr>Price = 0, High = 104, Low = 99, Close = 103\<rparr>,
                     \<lparr>Price = 0, High = 105, Low = 101, Close = 102::real\<rparr>]) \<and>
   int (length [\<lparr>Price = 0, High = 102, Low = 98, Close = 100\<rparr>,
                \<lparr>Price = 0, High = 104, Low = 99, Close = 103\<rparr>,
                \<lparr>Price = 0, High = 105, Low = 101, Close = 102::real\<rparr>])
     < atrPeriod \<lparr>stocks = Map.empty, riskPercent = 1, atrPeriod = 3, bollingerPeriod = 3\<rparr> + 1 \<and>
   calculateATR \<lparr>stocks = Map.empty, riskPercent = 1, atrPeriod = 3, bollingerPeriod = 3\<rparr>
     [\<lparr>Price = 0, High = 102, Low = 98, Close = 100\<rparr>,
      \<lparr>Price = 0, High = 104, Low = 99, Close = 103\<rparr>,
      \<lparr>Price = 0, High = 105, Low = 101, Close = 102\<rparr>] = Inr 0 \<and>
   \<not> (atrPeriod \<lparr>stocks = Map.empty, riskPercent = 1, atrPeriod = 3, bollingerPeriod = 3\<rparr>
        < bollingerPeriod \<lparr>stocks = Map.empty, riskPercent = 1, atrPeriod = 3, bollingerPeriod = 3\<rparr>)"
  by (simp add: maxHistory_def calculateATR_def)

section \<open>The rolling price history\<close>

lemma lastn_lastn_append: "lastn n (lastn n xs @ ys) = lastn n (xs @ ys)"
proof (cases "n \<le> length xs")
  case True
  then have "length ys + (length xs - n) = length xs + length ys - n" by simp
  then show ?thesis using True by (simp add: lastn_def)
next
  case False
  then show ?thesis by (simp add: lastn_def)
qed

lemma updateStock_ok:
  assumes "0 \<le> maxHistory b"
  shows "updateStock b currentPrice now stockData =
           Inr (stockData\<lparr>CurrentPrice := currentPrice, LastUpdate := now,
                  PriceHistory := lastn (nat (maxHistory b))
                                    (PriceHistory stockData @ [sample currentPrice])\<rparr>)"
proof -
  define h where "h = PriceHistory stockData @ [sample currentPrice]"
  have "drop (nat (int (length h) - maxHistory b)) h = lastn (nat (maxHistory b)) h"
    using assms by (simp add: lastn_def nat_diff_distrib')
  moreover have "h = lastn (nat (maxHistory b)) h" if "\<not> maxHistory b < int (length h)"
    using that by (simp add: lastn_def)
  ultimately show ?thesis
    using assms unfolding updateStock_def Let_def sample_def[symmetric] h_def[symmetric]
    by auto
qed

lemma pushes_history:
  assumes "0 \<le> maxHistory b" and "cycles \<noteq> []"
  shows "\<exists>stockData'. pushes b cycles stockData = Inr stockData' \<and>
           PriceHistory stockData' =
             lastn (nat (maxHistory b)) (PriceHistory stockData @ map (\<lambda>(p, now). sample p) cycles)"
  using assms(2)
proof (induction cycles arbitrary: stockData)
  case Nil
  then show ?case by simp
next
  case (Cons c cycles)
  obtain p now where c: "c = (p, now)" by (cases c)
  define sd1 where "sd1 = stockData\<lparr>CurrentPrice := p, LastUpdate := now,
      PriceHistory := lastn (nat (maxHistory b)) (PriceHistory stockData @ [sample p])\<rparr>"
  have step: "updateStock b p now stockData = Inr sd1"
    unfolding sd1_def by (rule updateStock_ok[OF assms(1)])
  show ?case
  proof (cases "cycles = []")
    case True
    then show ?thesis using step by (simp add: c sd1_def)
  next
    case False
    from Cons.IH[OF False, of sd1] obtain sd' where
      "pushes b cycles sd1 = Inr sd'" and
      "PriceHistory sd' = lastn (nat (maxHistory b))
          (PriceHistory sd1 @ map (\<lambda>(p, now). sample p) cycles)" by blast
    then show ?thesis using step
      by (simp add: c sd1_def lastn_lastn_append)
  qed
qed

text \<open>
  Claim C4. With \<open>W = max atrPeriod bollingerPeriod\<close> not negative (and the periods below
  \<open>2^53\<close> in absolute value), any number of pushes (at least one) into any \<open>StockData\<close>
  succeeds and leaves a price history of at most \<open>W\<close> samples; after more than \<open>W\<close>
  pushes the history is exactly the samples of the last \<open>W\<close> pushes, in the order they
  were pushed.
\<close>

theorem pushes_bounded_fifo:
  assumes "0 \<le> max (atrPeriod b) (bollingerPeriod b)" and "cycles \<noteq> []"
    and "\<bar>atrPeriod b\<bar> < 2 ^ 53" and "\<bar>bollingerPeriod b\<bar> < 2 ^ 53"
  shows "\<exists>stockData'. pushes b cycles stockData = Inr stockData' \<and>
           int (length (PriceHistory stockData')) \<le> max (atrPeriod b) (bollingerPeriod b) \<and>
           (max (atrPeriod b) (bollingerPeriod b) < int (length cycles) \<longrightarrow>
              PriceHistory stockData' =
                map (\<lambda>(p, now). sample p)
                    (lastn (nat (max (atrPeriod b) (bollingerPeriod b))) cycles))"
proof -
  have w: "0 \<le> maxHistory b" using assms(1) by (simp add: maxHistory_def)
  from pushes_history[OF w assms(2), of stockData] obtain sd' where
    r: "pushes b cycles stockData = Inr sd'" and
    h: "PriceHistory sd' = lastn (nat (maxHistory b))
          (PriceHistory stockData @ map (\<lambda>(p, now). sample p) cycles)" by blast
  have "int (length (PriceHistory sd')) \<le> maxHistory b"
    using w unfolding h lastn_def by simp
  moreover have "PriceHistory sd' = map (\<lambda>(p, now). sample p) (lastn (nat (maxHistory b)) cycles)"
    if "maxHistory b < int (length cycles)"
    using that w unfolding h lastn_def by (simp add: drop_map)
  ultimately show ?thesis using r by (auto simp: maxHistory_def)
qed


theorem pushes_bounded_fifo_witness:
  "(0::int) \<le> max 1 2 \<and> \<bar>1::int\<bar> < 2 ^ 53 \<and> \<bar>2::int\<bar> < 2 ^ 53 \<and>
   (\<exists>stockData'.
      pushes \<lparr>stocks = Map.empty, riskPercent = 1, atrPeriod = 1, bollingerPeriod = 2\<rparr>
        [(10, 1), (20, 2), (30, 3)]
        \<lparr>StockTicker = ''NVDA'', PriceHistory = [], Indicators = zeroIndicators,
         CurrentPrice = 0, LastUpdate = 0\<rparr> = Inr stockData' \<and>
      length (PriceHistory stockData') = 2 \<and>
      PriceHistory stockData' = [sample 20, sample 30])"
proof -
  define b where "b = \<lparr>stocks = Map.empty :: string \<rightharpoonup> StockData, riskPercent = 1,
    atrPeriod = 1, bollingerPeriod = 2\<rparr>"
  define cycles :: "(real \<times> nat) list" where "cycles = [(10, 1), (20, 2), (30, 3)]"
  define sd0 where "sd0 = \<lparr>StockTicker = ''NVDA'', PriceHistory = [],
    Indicators = zeroIndicators, CurrentPrice = 0, LastUpdate = 0\<rparr>"
  have w: "max (atrPeriod b) (bollingerPeriod b) = 2" by (simp add: b_def)
  have "0 \<le> max (atrPeriod b) (bollingerPeriod b)" and "cycles \<noteq> []"
    and "\<bar>atrPeriod b\<bar> < 2 ^ 53" and "\<bar>bollingerPeriod b\<bar> < 2 ^ 53"
    by (simp_all add: b_def cycles_def)
  from pushes_bounded_fifo[OF this, of sd0] obtain sd' where
    r: "pushes b cycles sd0 = Inr sd'" and
    h: "2 < int (length cycles) \<longrightarrow>
          PriceHistory sd' = map (\<lambda>(p, now). sample p) (lastn (nat 2) cycles)"
    unfolding w by blast
  have "PriceHistory sd' = [sample 20, sample 30]"
    using h by (simp add: cycles_def lastn_def)
  then have "pushes b cycles sd0 = Inr sd' \<and> length (PriceHistory sd') = 2 \<and>
      PriceHistory sd' = [sample 20, sample 30]" using r by simp
  then have "\<exists>stockData'. pushes b cycles sd0 = Inr stockData' \<and>
      length (PriceHistory stockData') = 2 \<and>
      PriceHistory stockData' = [sample 20, sample 30]" by blast
  then show ?thesis unfolding b_def cycles_def sd0_def by simp
qed

section \<open>A cycle in which a ticker has no price\<close>

lemma updateAllPrices_loop_ok:
  assumes "0 \<le> maxHistory b" and "distinct order"
    and "\<forall>t\<in>set order. getCurrentPrice (portfolio t) t = Inr (price t)"
  shows "updateAllPrices_loop b portfolio clock order m =
           Inr (\<lambda>t. if t \<in> set order \<and> price t \<noteq> 0
                    then map_option
                           (\<lambda>sd. sd\<lparr>CurrentPrice := price t, LastUpdate := clock t,
                                   PriceHistory := lastn (nat (maxHistory b))
                                     (PriceHistory sd @ [sample (price t)])\<rparr>) (m t)
                    else m t)"
  using assms(2,3)
proof (induction order arbitrary: m)
  case Nil
  then show ?case by simp
next
  case (Cons ticker order)
  have d: "distinct order" and nin: "ticker \<notin> set order" using Cons.prems(1) by simp_all
  have p: "\<forall>t\<in>set order. getCurrentPrice (portfolio t) t = Inr (price t)"
    and pt: "getCurrentPrice (portfolio ticker) ticker = Inr (price ticker)"
    using Cons.prems(2) by simp_all
  note IH = Cons.IH[OF d p]
  show ?case
  proof (cases "m ticker")
    case None
    then show ?thesis using nin by (auto simp: IH)
  next
    case (Some stockData)
    show ?thesis
    proof (cases "price ticker = 0")
      case True
      then show ?thesis using Some pt nin by (auto simp: IH)
    next
      case False
      then show ?thesis
        using Some pt nin updateStock_ok[OF assms(1), of "price ticker" "clock ticker" stockData]
        by (auto simp: IH)
    qed
  qed
qed

text \<open>
  Claim C9. In a cycle of \<open>updateAllPrices\<close> (the keys visited in any order, each once,
  every fetched price finite, \<open>max atrPeriod bollingerPeriod\<close> not negative, the periods
  below \<open>2^53\<close> in absolute value) a ticker whose fetched price is 0 keeps its \<open>StockData\<close>
  exactly as it was: \<open>CurrentPrice\<close>, \<open>LastUpdate\<close> and \<open>PriceHistory\<close> are not written.
  Every other ticker of the cycle whose price is not 0 is updated: its \<open>CurrentPrice\<close> is
  the fetched price, its \<open>LastUpdate\<close> the clock reading, and its \<open>PriceHistory\<close> the old
  one with the new sample (high and low at 1.005 and 0.995 times the price) appended,
  cut to its last \<open>max atrPeriod bollingerPeriod\<close> samples; its other fields stay.
\<close>

theorem updateAllPrices_zero_price:
  assumes "0 \<le> max (atrPeriod b) (bollingerPeriod b)" and "distinct order"
    and "\<forall>t\<in>set order. getCurrentPrice (portfolio t) t = Inr (price t)"
    and "price ticker = 0"
    and "\<bar>atrPeriod b\<bar> < 2 ^ 53" and "\<bar>bollingerPeriod b\<bar> < 2 ^ 53"
  shows "\<exists>b'. updateAllPrices b portfolio clock order = Inr b' \<and>
           stocks b' ticker = stocks b ticker \<and>
           (\<forall>t\<in>set order. \<forall>stockData. stocks b t = Some stockData \<and> price t \<noteq> 0 \<longrightarrow>
              stocks b' t =
                Some (stockData
                  \<lparr>CurrentPrice := price t, LastUpdate := clock t,
                   PriceHistory :=
                     lastn (nat (max (atrPeriod b) (bollingerPeriod b)))
                       (PriceHistory stockData @
                        [\<lparr>Price = price t, High = fmul (price t) (f64 1.005),
                          Low = fmul (price t) (f64 0.995), Close = price t\<rparr>])\<rparr>))"
proof -
  have w: "0 \<le> maxHistory b" using assms(1) by (simp add: maxHistory_def)
  show ?thesis
    using assms(4)
    by (simp add: updateAllPrices_def updateAllPrices_loop_ok[OF w assms(2,3)]
        sample_def maxHistory_def)
qed

theorem updateAllPrices_zero_price_witness:
  "\<exists>b'. updateAllPrices
      \<lparr>stocks = [''NVDA'' \<mapsto> \<lparr>StockTicker = ''NVDA'', PriceHistory = [sample 50],
                                 Indicators = zeroIndicators, CurrentPrice = 50, LastUpdate = 3\<rparr>,
                   ''TSLA'' \<mapsto> \<lparr>StockTicker = ''TSLA'', PriceHistory = [],
                                 Indicators = zeroIndicators, CurrentPrice = 0, LastUpdate = 0\<rparr>],
       riskPercent = 1, atrPeriod = 14, bollingerPeriod = 20\<rparr>
      (\<lambda>t. Inr [\<lparr>Ticker = ''TSLA'', Quantity = 2, Value = 400\<rparr>])
      (\<lambda>t. 7) [''NVDA'', ''TSLA''] = Inr b' \<and>
    stocks b' ''NVDA'' = Some \<lparr>StockTicker = ''NVDA'', PriceHistory = [sample 50],
                               Indicators = zeroIndicators, CurrentPrice = 50, LastUpdate = 3\<rparr> \<and>
    stocks b' ''TSLA'' = Some \<lparr>StockTicker = ''TSLA'', PriceHistory = [sample 200],
                               Indicators = zeroIndicators, CurrentPrice = 200, LastUpdate = 7\<rparr>"
proof -
  define sdN where "sdN = \<lparr>StockTicker = ''NVDA'', PriceHistory = [sample 50],
    Indicators = zeroIndicators, CurrentPrice = 50, LastUpdate = 3\<rparr>"
  define sdT where "sdT = \<lparr>StockTicker = ''TSLA'', PriceHistory = [],
    Indicators = zeroIndicators, CurrentPrice = 0, LastUpdate = 0\<rparr>"
  define b where "b = \<lparr>stocks = [''NVDA'' \<mapsto> sdN, ''TSLA'' \<mapsto> sdT],
    riskPercent = 1, atrPeriod = 14, bollingerPeriod = 20\<rparr>"
  define portfolio :: "string \<Rightarrow> string + Position list"
    where "portfolio = (\<lambda>t. Inr [\<lparr>Ticker = ''TSLA'', Quantity = 2, Value = 400\<rparr>])"
  define price :: "string \<Rightarrow> real" where "price = (\<lambda>t. if t = ''TSLA'' then 200 else 0)"
  define order where "order = [''NVDA'', ''TSLA'']"
  have w: "0 \<le> max (atrPeriod b) (bollingerPeriod b)" by (simp add: b_def)
  have d: "distinct order" by (simp add: order_def)
  have p: "\<forall>t\<in>set order. getCurrentPrice (portfolio t) t = Inr (price t)"
    by (simp add: order_def getCurrentPrice_def portfolio_def price_def fdiv_def f64_numeral)
  have z: "price ''NVDA'' = 0" by (simp add: price_def)
  have s: "\<bar>atrPeriod b\<bar> < 2 ^ 53" "\<bar>bollingerPeriod b\<bar> < 2 ^ 53" by (simp_all add: b_def)
  from updateAllPrices_zero_price[OF w d p z s, of "\<lambda>t. 7"] obtain b' where
    r: "updateAllPrices b portfolio (\<lambda>t. 7) order = Inr b'" and
    n: "stocks b' ''NVDA'' = stocks b ''NVDA''" and
    o: "\<forall>t\<in>set order. \<forall>stockData. stocks b t = Some stockData \<and> price t \<noteq> 0 \<longrightarrow>
          stocks b' t =
            Some (stockData
              \<lparr>CurrentPrice := price t, LastUpdate := 7,
               PriceHistory :=
                 lastn (nat (max (atrPeriod b) (bollingerPeriod b)))
                   (PriceHistory stockData @
                    [\<lparr>Price = price t, High = fmul (price t) (f64 1.005),
                      Low = fmul (price t) (f64 0.995), Close = price t\<rparr>])\<rparr>)"
    by blast
  have "stocks b ''TSLA'' = Some sdT \<and> price ''TSLA'' \<noteq> 0" by (simp add: b_def price_def)
  with o have "stocks b' ''TSLA'' =
      Some (sdT\<lparr>CurrentPrice := price ''TSLA'', LastUpdate := 7,
               PriceHistory :=
                 lastn (nat (max (atrPeriod b) (bollingerPeriod b)))
                   (PriceHistory sdT @
                    [\<lparr>Price = price ''TSLA'', High = fmul (price ''TSLA'') (f64 1.005),
                      Low = fmul (price ''TSLA'') (f64 0.995), Close = price ''TSLA''\<rparr>])\<rparr>)"
    unfolding order_def by auto
  then have t: "stocks b' ''TSLA'' = Some \<lparr>StockTicker = ''TSLA'', PriceHistory = [sample 200],
      Indicators = zeroIndicators, CurrentPrice = 200, LastUpdate = 7\<rparr>"
    by (simp add: sample_def lastn_def b_def price_def sdT_def)
  moreover have "stocks b ''NVDA'' = Some sdN" by (simp add: b_def)
  ultimately have "updateAllPrices b portfolio (\<lambda>t. 7) order = Inr b' \<and>
      stocks b' ''NVDA'' = Some sdN \<and>
      stocks b' ''TSLA'' = Some \<lparr>StockTicker = ''TSLA'', PriceHistory = [sample 200],
                               Indicators = zeroIndicators, CurrentPrice = 200, LastUpdate = 7\<rparr>"
    using r n by simp
  then show ?thesis unfolding b_def sdN_def sdT_def portfolio_def order_def by blast
qed

section \<open>Entries and exits\<close>

lemma executeTrading_flat:
  assumes "max (atrPeriod b) (bollingerPeriod b) \<le> int (length (PriceHistory stockData))"
    and "0 < CurrentPrice stockData"
    and "find_position positions ticker = None"
    and "go_int (f64 (f64 (fmul portfolioValue (riskPercent b) / 100) / CurrentPrice stockData))
           = Inr n"
  shows "executeTrading b ticker stockData positions portfolioValue =
           Inr (if CurrentPrice stockData \<le> LowerBand (Indicators stockData) \<and>
                   ATR (Indicators stockData) < fmul (CurrentPrice stockData) (f64 0.025) \<and>
                   CurrentPrice stockData < MiddleBand (Indicators stockData) \<and>
                   f64 0.02 < f64 (fsub (UpperBand (Indicators stockData))
                                        (LowerBand (Indicators stockData))
                                   / MiddleBand (Indicators stockData)) \<and>
                   f64 (fsub (UpperBand (Indicators stockData))
                             (LowerBand (Indicators stockData))
                        / MiddleBand (Indicators stockData)) < f64 0.15
                then Buy ticker (max 1 n) else NoEntry)"
proof -
  have size: "(if n < 1 then 1 else n) = max 1 n" by simp
  show ?thesis
    using assms
    by (auto simp: executeTrading_def maxHistory_def evaluateEntry_def fdiv_def Let_def size
        simp del: max.absorb1 max.absorb2 max.absorb3 max.absorb4 max_less_iff_conj)
qed

text \<open>
  Claim C2. For a ticker without a position (Flat), with enough history and a positive
  current price, \<open>executeTrading\<close> submits a buy order exactly when the four entry
  conditions hold together: the price is at most the lower band, the ATR is below the
  price times 0.025, the price is below the middle band, and the band width
  (upper band - lower band) / middle band is strictly between 0.02 and 0.15. When one
  of them fails it submits no order, and no branch writes to the state. The position
  size \<open>n\<close> is the int that the size formula converts to.
\<close>

theorem executeTrading_entry:
  assumes "max (atrPeriod b) (bollingerPeriod b) \<le> int (length (PriceHistory stockData))"
    and "0 < CurrentPrice stockData"
    and "find_position positions ticker = None"
    and "go_int (f64 (f64 (fmul portfolioValue (riskPercent b) / 100) / CurrentPrice stockData))
           = Inr n"
  shows "executeTrading b ticker stockData positions portfolioValue =
           Inr (if CurrentPrice stockData \<le> LowerBand (Indicators stockData) \<and>
                   ATR (Indicators stockData) < fmul (CurrentPrice stockData) (f64 0.025) \<and>
                   CurrentPrice stockData < MiddleBand (Indicators stockData) \<and>
                   f64 0.02 < f64 (fsub (UpperBand (Indicators stockData))
                                        (LowerBand (Indicators stockData))
                                   / MiddleBand (Indicators stockData)) \<and>
                   f64 (fsub (UpperBand (Indicators stockData))
                             (LowerBand (Indicators stockData))
                        / MiddleBand (Indicators stockData)) < f64 0.15
                then Buy ticker (max 1 n) else NoEntry)"
  using assms by (rule executeTrading_flat)

lemma evaluateExit_not_Buy: "evaluateExit ticker currentPrice indicators position \<noteq> Inr (Buy t q)"
  by (auto simp: evaluateExit_def Let_def split: sum.splits)

lemma max_one_trunc: "(if trunc x < 1 then 1 else trunc x) = max 1 \<lfloor>x\<rfloor>"
proof (cases "0 \<le> x")
  case True
  then show ?thesis by (simp add: trunc_def)
next
  case False
  then have "\<lceil>x\<rceil> \<le> 0" "\<lfloor>x\<rfloor> \<le> 0" by (simp_all add: ceiling_le_iff floor_le_iff)
  then show ?thesis using False by (simp add: trunc_def)
qed

text \<open>
  Claim C6. The quantity of every buy order is the larger of 1 and the floor of
  (portfolioValue * riskPercent / 100) / currentPrice: a function of the portfolio value,
  the bot's one risk percentage and the ticker's own price, and of nothing else.
\<close>

theorem executeTrading_buy_quantity:
  assumes "executeTrading b ticker stockData positions portfolioValue = Inr (Buy t q)"
  shows "t = ticker \<and>
         q = max 1 \<lfloor>f64 (f64 (fmul portfolioValue (riskPercent b) / 100) / CurrentPrice stockData)\<rfloor>"
proof -
  define x where "x = f64 (f64 (fmul portfolioValue (riskPercent b) / 100) / CurrentPrice stockData)"
  have "t = ticker \<and> q = (if trunc x < 1 then 1 else trunc x)"
    using assms evaluateExit_not_Buy
    unfolding executeTrading_def Let_def x_def[symmetric] go_int_def evaluateEntry_def
    by (auto split: if_splits option.splits sum.splits)
  then show ?thesis unfolding max_one_trunc x_def by simp
qed

lemma evaluateExit_eq:
  assumes "Quantity position \<noteq> 0" and "Value position \<noteq> 0"
    and "go_int (Quantity position) = Inr n"
  shows "evaluateExit ticker currentPrice indicators position =
     (let entryPrice = f64 (Value position / Quantity position);
          profitPercent = fmul (f64 (fsub currentPrice entryPrice / entryPrice)) 100;
          takeProfit = (UpperBand indicators \<le> currentPrice);
          stopLoss = (currentPrice \<le> fsub entryPrice (fmul (ATR indicators) (f64 1.5)));
          profitProtection = (5 \<le> profitPercent \<and> currentPrice < MiddleBand indicators);
          highVolatility = (fmul entryPrice (f64 0.04) < ATR indicators \<and> 0 < profitPercent);
          lowVolatility = (profitPercent < 0 \<and> ATR indicators < fmul entryPrice (f64 0.01))
      in Inr (if lowVolatility then Sell ticker (neg64 n) ''Low Volatility Cut''
              else if highVolatility then Sell ticker (neg64 n) ''High Volatility Exit''
              else if profitProtection then Sell ticker (neg64 n) ''Profit Protection''
              else if stopLoss then Sell ticker (neg64 n) ''Stop Loss (ATR)''
              else if takeProfit then Sell ticker (neg64 n) ''Take Profit (Upper Band)''
              else Holding))"
proof -
  have e: "f64 (Value position / Quantity position) \<noteq> 0"
    using assms(1,2) by (simp add: f64_eq_0_iff)
  show ?thesis
    using assms e by (simp add: evaluateExit_def fdiv_def Let_def)
qed

text \<open>
  Claim C1, as amended. For a held position (quantity and value not 0, the quantity
  within int), \<open>evaluateExit\<close> submits a sell order exactly when at least one of the five
  exit conditions holds, and the reason it reports is that of the last condition that
  holds in the order of the source: low volatility cut before high volatility exit before
  profit protection before stop loss before take profit.
\<close>

theorem evaluateExit_last_reason:
  assumes "Quantity position \<noteq> 0" and "Value position \<noteq> 0"
    and "go_int (Quantity position) = Inr n"
  shows "evaluateExit ticker currentPrice indicators position =
     (let entryPrice = f64 (Value position / Quantity position);
          profitPercent = fmul (f64 (fsub currentPrice entryPrice / entryPrice)) 100;
          takeProfit = (UpperBand indicators \<le> currentPrice);
          stopLoss = (currentPrice \<le> fsub entryPrice (fmul (ATR indicators) (f64 1.5)));
          profitProtection = (5 \<le> profitPercent \<and> currentPrice < MiddleBand indicators);
          highVolatility = (fmul entryPrice (f64 0.04) < ATR indicators \<and> 0 < profitPercent);
          lowVolatility = (profitPercent < 0 \<and> ATR indicators < fmul entryPrice (f64 0.01))
      in Inr (if lowVolatility then Sell ticker (neg64 n) ''Low Volatility Cut''
              else if highVolatility then Sell ticker (neg64 n) ''High Volatility Exit''
              else if profitProtection then Sell ticker (neg64 n) ''Profit Protection''
              else if stopLoss then Sell ticker (neg64 n) ''Stop Loss (ATR)''
              else if takeProfit then Sell ticker (neg64 n) ''Take Profit (Upper Band)''
              else Holding))"
  using assms by (rule evaluateExit_eq)

lemma evaluateExit_Sell:
  assumes "evaluateExit ticker currentPrice indicators position = Inr (Sell t q r)"
  shows "t = ticker \<and> q = neg64 (trunc (Quantity position))"
  using assms
  by (auto simp: evaluateExit_def Let_def go_int_def split: sum.splits if_splits)

text \<open>
  Claim C10, as amended. Every sell order of \<open>executeTrading\<close> is for the position held in
  the ticker, and its quantity is that position's quantity truncated to an integer and
  negated, whatever position size the cycle computed. For a positive held quantity the
  order leaves the fractional part of the quantity unsold: it closes the whole position
  exactly when the held quantity is a whole number.
\<close>

theorem executeTrading_sell_quantity:
  assumes "executeTrading b ticker stockData positions portfolioValue = Inr (Sell t q r)"
  shows "\<exists>position. find_position positions ticker = Some position \<and> t = ticker \<and>
           q = neg64 (trunc (Quantity position)) \<and>
           (0 < Quantity position \<longrightarrow>
              q = - \<lfloor>Quantity position\<rfloor> \<and>
              Quantity position + of_int q = frac (Quantity position))"
proof -
  obtain position where p: "find_position positions ticker = Some position"
    and x: "evaluateExit ticker (CurrentPrice stockData) (Indicators stockData) position
              = Inr (Sell t q r)"
    using assms
    by (auto simp: executeTrading_def Let_def evaluateEntry_def split: if_splits option.splits sum.splits)
  have q: "t = ticker" "q = neg64 (trunc (Quantity position))"
    using evaluateExit_Sell[OF x] by simp_all
  have "q = - \<lfloor>Quantity position\<rfloor> \<and> Quantity position + of_int q = frac (Quantity position)"
    if pos: "0 < Quantity position"
  proof -
    have "0 \<le> \<lfloor>Quantity position\<rfloor>" using pos by simp
    moreover have "- (2 ^ 63) < (0::int)" by simp
    ultimately have "\<lfloor>Quantity position\<rfloor> \<noteq> - (2 ^ 63)" by linarith
    then have "q = - \<lfloor>Quantity position\<rfloor>" using pos q(2) by (simp add: neg64_def trunc_def)
    then show ?thesis by (simp add: frac_def)
  qed
  then show ?thesis using p q by blast
qed

text \<open>The roundings that the examples below go through.\<close>

lemma f64_0_025: "f64 (0.025) = 3602879701896397 / 2 ^ 57"
  by (subst f64_eval[where k = "- 6"]) (simp_all add: rte_def Let_def power_int_minus)

lemma f64_0_02: "f64 (0.02) = 5764607523034235 / 2 ^ 58"
  by (subst f64_eval[where k = "- 6"]) (simp_all add: rte_def Let_def power_int_minus)

lemma f64_0_15: "f64 (0.15) = 5404319552844595 / 2 ^ 55"
  by (subst f64_eval[where k = "- 3"]) (simp_all add: rte_def Let_def power_int_minus)

lemma f64_0_04: "f64 (0.04) = 5764607523034235 / 2 ^ 57"
  by (subst f64_eval[where k = "- 5"]) (simp_all add: rte_def Let_def power_int_minus)

lemma f64_0_01: "f64 (0.01) = 5764607523034235 / 2 ^ 59"
  by (subst f64_eval[where k = "- 7"]) (simp_all add: rte_def Let_def power_int_minus)

lemma f64_0_4: "f64 (0.4) = 3602879701896397 / 2 ^ 53"
  by (subst f64_eval[where k = "- 2"]) (simp_all add: rte_def Let_def power_int_minus)

lemma f64_1_5: "f64 (1.5) = 3 / 2 ^ 1"
  by (subst f64_eval[where k = 0]) (simp_all add: rte_def Let_def power_int_minus)

lemma e_95_025: "f64 (95 * (3602879701896397 / 2 ^ 57)) = 19 / 2 ^ 3"
  by (subst f64_eval[where k = 1]) (simp_all add: rte_def Let_def power_int_minus)

lemma e_100_025: "f64 (100 * (3602879701896397 / 2 ^ 57)) = 5 / 2 ^ 1"
  by (subst f64_eval[where k = 1]) (simp_all add: rte_def Let_def power_int_minus)

lemma e_tenth: "f64 (10 / 100) = 3602879701896397 / 2 ^ 55"
  by (subst f64_eval[where k = "- 4"]) (simp_all add: rte_def Let_def power_int_minus)

lemma e_10_105: "f64 (10 / 105) = 857828500451523 / 2 ^ 53"
  by (subst f64_eval[where k = "- 4"]) (simp_all add: rte_def Let_def power_int_minus)

lemma e_pv: "f64 (10000 * (3602879701896397 / 2 ^ 53)) = 4000"
  by (subst f64_eval[where k = 11]) (simp_all add: rte_def Let_def power_int_minus)

lemma e_40_100: "f64 (40 / 100) = 3602879701896397 / 2 ^ 53"
  by (subst f64_eval[where k = "- 2"]) (simp_all add: rte_def Let_def power_int_minus)

lemma e_11_95: "f64 (11 / 95) = 4171755444301091 / 2 ^ 55"
  by (subst f64_eval[where k = "- 4"]) (simp_all add: rte_def Let_def power_int_minus)

lemma e_pp: "f64 (4171755444301091 / 2 ^ 55 * 100) = 6518367881720455 / 2 ^ 49"
  by (subst f64_eval[where k = 3]) (simp_all add: rte_def Let_def power_int_minus)

lemma e_95_04: "f64 (95 * (5764607523034235 / 2 ^ 57)) = 8556839292003943 / 2 ^ 51"
  by (subst f64_eval[where k = 1]) (simp_all add: rte_def Let_def power_int_minus)

lemma e_95_01: "f64 (95 * (5764607523034235 / 2 ^ 59)) = 8556839292003943 / 2 ^ 53"
  by (subst f64_eval[where k = "- 1"]) (simp_all add: rte_def Let_def power_int_minus)


text \<open>The entry scenario of the specification: price 95, bands 95, 100 and 105, ATR 2.\<close>

theorem executeTrading_entry_witness:
  "executeTrading \<lparr>stocks = Map.empty, riskPercent = 1, atrPeriod = 14, bollingerPeriod = 20\<rparr>
     ''NVDA''
     \<lparr>StockTicker = ''NVDA'', PriceHistory = replicate 20 (sample 95),
      Indicators = \<lparr>ATR = 2, UpperBand = 105, MiddleBand = 100, LowerBand = 95, StdDev = 2.5\<rparr>,
      CurrentPrice = 95, LastUpdate = 0\<rparr>
     [] 9500 = Inr (Buy ''NVDA'' 1)"
proof -
  define b where "b = \<lparr>stocks = Map.empty :: string \<rightharpoonup> StockData, riskPercent = 1,
    atrPeriod = 14, bollingerPeriod = 20\<rparr>"
  define ind where "ind = \<lparr>ATR = 2, UpperBand = 105, MiddleBand = 100, LowerBand = 95, StdDev = 2.5\<rparr>"
  define sd where "sd = \<lparr>StockTicker = ''NVDA'', PriceHistory = replicate 20 (sample 95),
      Indicators = ind, CurrentPrice = 95, LastUpdate = 0\<rparr>"
  have h: "max (atrPeriod b) (bollingerPeriod b) \<le> int (length (PriceHistory sd))"
    by (simp add: b_def sd_def)
  have p: "0 < CurrentPrice sd" by (simp add: sd_def)
  have f: "find_position [] ''NVDA'' = None" by simp
  have "f64 (f64 (fmul 9500 (riskPercent b) / 100) / CurrentPrice sd) = 1"
    by (simp add: b_def sd_def fmul_def f64_numeral f64_one)
  then have g: "go_int (f64 (f64 (fmul 9500 (riskPercent b) / 100) / CurrentPrice sd)) = Inr 1"
    by (simp add: go_int_def trunc_def)
  have c2: "ATR (Indicators sd) < fmul (CurrentPrice sd) (f64 0.025)"
  proof -
    have "fmul 95 (f64 0.025) = 19 / 2 ^ 3" unfolding fmul_def f64_0_025 by (rule e_95_025)
    then show ?thesis by (simp add: sd_def ind_def)
  qed
  have w: "f64 (fsub (UpperBand (Indicators sd)) (LowerBand (Indicators sd)) / MiddleBand (Indicators sd))
             = 3602879701896397 / 2 ^ 55"
  proof -
    have "fsub 105 95 = 10" by (simp add: fsub_def f64_numeral)
    then show ?thesis using e_tenth by (simp add: sd_def ind_def)
  qed
  have c4: "f64 0.02 < 3602879701896397 / 2 ^ 55" "3602879701896397 / 2 ^ 55 < f64 0.15"
    unfolding f64_0_02 f64_0_15 by simp_all
  have c13: "CurrentPrice sd \<le> LowerBand (Indicators sd)" "CurrentPrice sd < MiddleBand (Indicators sd)"
    by (simp_all add: sd_def ind_def)
  have "executeTrading b ''NVDA'' sd [] 9500 = Inr (Buy ''NVDA'' 1)"
    unfolding executeTrading_entry[OF h p f g] w using c2 c4 c13 by simp
  then show ?thesis unfolding b_def sd_def ind_def .
qed


text \<open>
  The sizing example of the specification: portfolio value 10000, risk 0.4 per cent and
  price 100 give floor 0, and the order is for 1 share.
\<close>

theorem executeTrading_buy_quantity_witness:
  "executeTrading
     \<lparr>stocks = Map.empty, riskPercent = f64 0.4, atrPeriod = 14, bollingerPeriod = 20\<rparr>
     ''NVDA''
     \<lparr>StockTicker = ''NVDA'', PriceHistory = replicate 20 (sample 100),
      Indicators = \<lparr>ATR = 2, UpperBand = 110, MiddleBand = 105, LowerBand = 100, StdDev = 2.5\<rparr>,
      CurrentPrice = 100, LastUpdate = 0\<rparr>
     [] 10000 = Inr (Buy ''NVDA'' 1) \<and>
   (1::int) = max 1 \<lfloor>f64 (f64 (fmul 10000 (f64 0.4) / 100) / 100)\<rfloor> \<and>
   \<lfloor>f64 (f64 (fmul 10000 (f64 0.4) / 100) / 100)\<rfloor> = 0"
proof -
  define b where "b = \<lparr>stocks = Map.empty :: string \<rightharpoonup> StockData, riskPercent = f64 0.4,
    atrPeriod = 14, bollingerPeriod = 20\<rparr>"
  define ind where "ind = \<lparr>ATR = 2, UpperBand = 110, MiddleBand = 105, LowerBand = 100, StdDev = 2.5\<rparr>"
  define sd where "sd = \<lparr>StockTicker = ''NVDA'', PriceHistory = replicate 20 (sample 100),
      Indicators = ind, CurrentPrice = 100, LastUpdate = 0\<rparr>"
  have h: "max (atrPeriod b) (bollingerPeriod b) \<le> int (length (PriceHistory sd))"
    by (simp add: b_def sd_def)
  have p: "0 < CurrentPrice sd" by (simp add: sd_def)
  have f: "find_position [] ''NVDA'' = None" by simp
  have pv: "fmul 10000 (f64 0.4) = 4000" unfolding fmul_def f64_0_4 by (rule e_pv)
  have "f64 (4000 / 100) = 40" by (simp add: f64_numeral)
  then have x: "f64 (f64 (fmul 10000 (f64 0.4) / 100) / 100) = 3602879701896397 / 2 ^ 53"
    unfolding pv using e_40_100 by simp
  have fl: "\<lfloor>f64 (f64 (fmul 10000 (f64 0.4) / 100) / 100)\<rfloor> = 0" unfolding x by simp
  have g: "go_int (f64 (f64 (fmul 10000 (riskPercent b) / 100) / CurrentPrice sd)) = Inr 0"
  proof -
    have "riskPercent b = f64 0.4" "CurrentPrice sd = 100" by (simp_all add: b_def sd_def)
    then show ?thesis unfolding go_int_def trunc_def Let_def using fl x by simp
  qed
  have c2: "ATR (Indicators sd) < fmul (CurrentPrice sd) (f64 0.025)"
  proof -
    have "fmul 100 (f64 0.025) = 5 / 2 ^ 1" unfolding fmul_def f64_0_025 by (rule e_100_025)
    then show ?thesis by (simp add: sd_def ind_def)
  qed
  have w: "f64 (fsub (UpperBand (Indicators sd)) (LowerBand (Indicators sd)) / MiddleBand (Indicators sd))
             = 857828500451523 / 2 ^ 53"
  proof -
    have "fsub 110 100 = 10" by (simp add: fsub_def f64_numeral)
    then show ?thesis using e_10_105 by (simp add: sd_def ind_def)
  qed
  have c4: "f64 0.02 < 857828500451523 / 2 ^ 53" "857828500451523 / 2 ^ 53 < f64 0.15"
    unfolding f64_0_02 f64_0_15 by simp_all
  have c13: "CurrentPrice sd \<le> LowerBand (Indicators sd)" "CurrentPrice sd < MiddleBand (Indicators sd)"
    by (simp_all add: sd_def ind_def)
  have buy: "executeTrading b ''NVDA'' sd [] 10000 = Inr (Buy ''NVDA'' 1)"
    unfolding executeTrading_flat[OF h p f g] w using c2 c4 c13 by simp
  from executeTrading_buy_quantity[OF buy]
  have "(1::int) = max 1 \<lfloor>f64 (f64 (fmul 10000 (f64 0.4) / 100) / 100)\<rfloor>"
    by (simp add: b_def sd_def)
  then show ?thesis using buy fl unfolding b_def sd_def ind_def by simp
qed

text \<open>
  The exit scenario of the specification: entry price 95, price 106, upper band 105. With
  an ATR of 4 the high volatility condition holds as well, and it is the reason reported;
  with an ATR of 2 take profit is the only condition that holds.
\<close>

lemma exit_entryPrice: "f64 (95 / 1) = 95"
  by (simp add: f64_numeral)

lemma exit_profit: "fmul (f64 (fsub 106 95 / 95)) 100 = 6518367881720455 / 2 ^ 49"
proof -
  have d: "fsub 106 95 = 11" by (simp add: fsub_def f64_numeral)
  show ?thesis unfolding fmul_def d e_11_95 by (rule e_pp)
qed

lemma exit_high: "fmul 95 (f64 0.04) = 8556839292003943 / 2 ^ 51"
  unfolding fmul_def f64_0_04 by (rule e_95_04)

lemma exit_low: "fmul 95 (f64 0.01) = 8556839292003943 / 2 ^ 53"
  unfolding fmul_def f64_0_01 by (rule e_95_01)

lemma exit_stop: "fsub 95 (fmul a (f64 1.5)) = f64 (95 - f64 (a * (3 / 2)))"
  unfolding fsub_def fmul_def f64_1_5 by simp

theorem evaluateExit_last_reason_counterexample:
  "evaluateExit ''NVDA'' 106
     \<lparr>ATR = 4, UpperBand = 105, MiddleBand = 100, LowerBand = 95, StdDev = 2.5\<rparr>
     \<lparr>Ticker = ''NVDA'', Quantity = 1, Value = 95\<rparr> =
     Inr (Sell ''NVDA'' (- 1) ''High Volatility Exit'') \<and>
   UpperBand \<lparr>ATR = 4, UpperBand = 105, MiddleBand = 100, LowerBand = 95, StdDev = 2.5\<rparr>
     \<le> (106::real)"
proof -
  define ind where "ind = \<lparr>ATR = 4, UpperBand = 105, MiddleBand = 100, LowerBand = 95, StdDev = 2.5\<rparr>"
  define pos where "pos = \<lparr>Ticker = ''NVDA'', Quantity = 1, Value = 95\<rparr>"
  have q: "Quantity pos \<noteq> 0" "Value pos \<noteq> 0" by (simp_all add: pos_def)
  have g: "go_int (Quantity pos) = Inr 1" by (simp add: go_int_def trunc_def pos_def)
  have e: "f64 (Value pos / Quantity pos) = 95" using exit_entryPrice by (simp add: pos_def)
  have s: "fsub 95 (fmul (ATR ind) (f64 1.5)) = 89"
    unfolding exit_stop by (simp add: ind_def f64_numeral)
  have "evaluateExit ''NVDA'' 106 ind pos = Inr (Sell ''NVDA'' (- 1) ''High Volatility Exit'')"
    unfolding evaluateExit_eq[OF q g] Let_def e exit_profit exit_high exit_low s
    by (simp add: ind_def neg64_def)
  then show ?thesis unfolding ind_def pos_def by simp
qed

theorem evaluateExit_last_reason_witness:
  "evaluateExit ''NVDA'' 106
     \<lparr>ATR = 2, UpperBand = 105, MiddleBand = 100, LowerBand = 95, StdDev = 2.5\<rparr>
     \<lparr>Ticker = ''NVDA'', Quantity = 1, Value = 95\<rparr> =
     Inr (Sell ''NVDA'' (- 1) ''Take Profit (Upper Band)'')"
proof -
  define ind where "ind = \<lparr>ATR = 2, UpperBand = 105, MiddleBand = 100, LowerBand = 95, StdDev = 2.5\<rparr>"
  define pos where "pos = \<lparr>Ticker = ''NVDA'', Quantity = 1, Value = 95\<rparr>"
  have q: "Quantity pos \<noteq> 0" "Value pos \<noteq> 0" by (simp_all add: pos_def)
  have g: "go_int (Quantity pos) = Inr 1" by (simp add: go_int_def trunc_def pos_def)
  have e: "f64 (Value pos / Quantity pos) = 95" using exit_entryPrice by (simp add: pos_def)
  have s: "fsub 95 (fmul (ATR ind) (f64 1.5)) = 92"
    unfolding exit_stop by (simp add: ind_def f64_numeral)
  have "evaluateExit ''NVDA'' 106 ind pos = Inr (Sell ''NVDA'' (- 1) ''Take Profit (Upper Band)'')"
    unfolding evaluateExit_last_reason[OF q g] Let_def e exit_profit exit_high exit_low s
    by (simp add: ind_def neg64_def)
  then show ?thesis unfolding ind_def pos_def .
qed


text \<open>A position of 2.5 shares: the order sells 2 and half a share stays.\<close>

lemma executeTrading_long:
  assumes "maxHistory b \<le> int (length (PriceHistory stockData))"
    and "CurrentPrice stockData \<noteq> 0"
    and "find_position positions ticker = Some position"
  shows "executeTrading b ticker stockData positions portfolioValue =
           evaluateExit ticker (CurrentPrice stockData) (Indicators stockData) position"
  using assms by (simp add: executeTrading_def Let_def)

theorem executeTrading_sell_quantity_counterexample:
  "executeTrading \<lparr>stocks = Map.empty, riskPercent = f64 0.4, atrPeriod = 14, bollingerPeriod = 20\<rparr>
     ''NVDA''
     \<lparr>StockTicker = ''NVDA'', PriceHistory = replicate 20 (sample 106),
      Indicators = \<lparr>ATR = 2, UpperBand = 105, MiddleBand = 100, LowerBand = 95, StdDev = 2.5\<rparr>,
      CurrentPrice = 106, LastUpdate = 0\<rparr>
     [\<lparr>Ticker = ''NVDA'', Quantity = 2.5, Value = 237.5\<rparr>] 237.5 =
     Inr (Sell ''NVDA'' (- 2) ''Take Profit (Upper Band)'') \<and>
   Quantity \<lparr>Ticker = ''NVDA'', Quantity = 2.5, Value = 237.5\<rparr> + of_int (- 2) = 1 / 2"
proof -
  define b where "b = \<lparr>stocks = Map.empty :: string \<rightharpoonup> StockData, riskPercent = f64 0.4,
    atrPeriod = 14, bollingerPeriod = 20\<rparr>"
  define ind where "ind = \<lparr>ATR = 2, UpperBand = 105, MiddleBand = 100, LowerBand = 95, StdDev = 2.5\<rparr>"
  define sd where "sd = \<lparr>StockTicker = ''NVDA'', PriceHistory = replicate 20 (sample 106),
      Indicators = ind, CurrentPrice = 106, LastUpdate = 0\<rparr>"
  define pos where "pos = \<lparr>Ticker = ''NVDA'', Quantity = 2.5, Value = 237.5\<rparr>"
  have h: "maxHistory b \<le> int (length (PriceHistory sd))" by (simp add: maxHistory_def b_def sd_def)
  have p: "CurrentPrice sd \<noteq> 0" by (simp add: sd_def)
  have f: "find_position [pos] ''NVDA'' = Some pos" by (simp add: pos_def)
  have q: "Quantity pos \<noteq> 0" "Value pos \<noteq> 0" by (simp_all add: pos_def)
  have g: "go_int (Quantity pos) = Inr 2" by (simp add: go_int_def trunc_def pos_def)
  have e: "f64 (Value pos / Quantity pos) = 95" using exit_entryPrice by (simp add: pos_def)
  have s: "fsub 95 (fmul (ATR ind) (f64 1.5)) = 92"
    unfolding exit_stop by (simp add: ind_def f64_numeral)
  have c: "CurrentPrice sd = 106" "Indicators sd = ind" by (simp_all add: sd_def)
  have "executeTrading b ''NVDA'' sd [pos] 237.5 = Inr (Sell ''NVDA'' (- 2) ''Take Profit (Upper Band)'')"
    unfolding executeTrading_long[OF h p f] c evaluateExit_eq[OF q g] Let_def e exit_profit
      exit_high exit_low s
    by (simp add: ind_def neg64_def)
  then show ?thesis unfolding b_def sd_def ind_def pos_def by simp
qed

theorem executeTrading_sell_quantity_witness:
  "executeTrading \<lparr>stocks = Map.empty, riskPercent = f64 0.4, atrPeriod = 14, bollingerPeriod = 20\<rparr>
     ''NVDA''
     \<lparr>StockTicker = ''NVDA'', PriceHistory = replicate 20 (sample 106),
      Indicators = \<lparr>ATR = 2, UpperBand = 105, MiddleBand = 100, LowerBand = 95, StdDev = 2.5\<rparr>,
      CurrentPrice = 106, LastUpdate = 0\<rparr>
     [\<lparr>Ticker = ''NVDA'', Quantity = 10, Value = 950\<rparr>] 950 =
     Inr (Sell ''NVDA'' (- 10) ''Take Profit (Upper Band)'') \<and>
   Quantity \<lparr>Ticker = ''NVDA'', Quantity = 10, Value = 950\<rparr> + of_int (- 10) =
     frac (Quantity \<lparr>Ticker = ''NVDA'', Quantity = 10, Value = 950\<rparr>)"
proof -
  define b where "b = \<lparr>stocks = Map.empty :: string \<rightharpoonup> StockData, riskPercent = f64 0.4,
    atrPeriod = 14, bollingerPeriod = 20\<rparr>"
  define ind where "ind = \<lparr>ATR = 2, UpperBand = 105, MiddleBand = 100, LowerBand = 95, StdDev = 2.5\<rparr>"
  define sd where "sd = \<lparr>StockTicker = ''NVDA'', PriceHistory = replicate 20 (sample 106),
      Indicators = ind, CurrentPrice = 106, LastUpdate = 0\<rparr>"
  define pos where "pos = \<lparr>Ticker = ''NVDA'', Quantity = 10, Value = 950\<rparr>"
  have h: "maxHistory b \<le> int (length (PriceHistory sd))" by (simp add: maxHistory_def b_def sd_def)
  have p: "CurrentPrice sd \<noteq> 0" by (simp add: sd_def)
  have f: "find_position [pos] ''NVDA'' = Some pos" by (simp add: pos_def)
  have q: "Quantity pos \<noteq> 0" "Value pos \<noteq> 0" by (simp_all add: pos_def)
  have g: "go_int (Quantity pos) = Inr 10" by (simp add: go_int_def trunc_def pos_def)
  have e: "f64 (Value pos / Quantity pos) = 95" using exit_entryPrice by (simp add: pos_def)
  have s: "fsub 95 (fmul (ATR ind) (f64 1.5)) = 92"
    unfolding exit_stop by (simp add: ind_def f64_numeral)
  have c: "CurrentPrice sd = 106" "Indicators sd = ind" by (simp_all add: sd_def)
  have r: "executeTrading b ''NVDA'' sd [pos] 950 = Inr (Sell ''NVDA'' (- 10) ''Take Profit (Upper Band)'')"
    unfolding executeTrading_long[OF h p f] c evaluateExit_eq[OF q g] Let_def e exit_profit
      exit_high exit_low s
    by (simp add: ind_def neg64_def)
  from executeTrading_sell_quantity[OF r] f
  have "0 < Quantity pos \<longrightarrow> Quantity pos + of_int (- 10) = frac (Quantity pos)" by auto
  moreover have "0 < Quantity pos" by (simp add: pos_def)
  ultimately have "Quantity pos + of_int (- 10) = frac (Quantity pos)" by blast
  then show ?thesis using r unfolding b_def sd_def ind_def pos_def by simp
qed

end
